theory Spec2Isabelle
  imports Main "HOL-Library.Char_ord" "HOL-Library.List_Lexorder"
begin

section \<open>The plugin result store of owtf/managers/poutput.py\<close>

text \<open>
  The module works on two database tables (plugin outputs and queued work), on the
  artifact directories of the file system, and on a few collaborators (the worker pool,
  the target manager, the configuration). The embedding passes all of that as an explicit
  \<open>world\<close> value; a function of the module that mutates takes the world and returns
  the new one, together with the exception it raised, if any.

  The decorators \<open>target_required\<close> and \<open>session_required\<close> belong to other
  modules; the functions are modelled as called with their \<open>target_id\<close> or
  \<open>session_id\<close> given. The functions \<open>plugin_output_exists\<close>,
  \<open>plugin_already_run\<close> and \<open>get_unique_dicts\<close> take no part in what is proved
  below and are left out.
\<close>

subsection \<open>Exceptions\<close>

datatype exn =
    InvalidParameterType    \<comment> \<open>owtf.lib.exceptions.InvalidParameterType\<close>
  | SQLAlchemyError         \<comment> \<open>a failed commit\<close>
  | InvalidRequestError     \<comment> \<open>Query.delete() on a query that carries limit or offset\<close>
  | IndexError              \<comment> \<open>a list index out of range\<close>
  | TypeError               \<comment> \<open>a value of the wrong kind: not iterable, not subscriptable, not a mapping\<close>
  | KeyError                \<comment> \<open>a dictionary without the key\<close>
  | AttributeError          \<comment> \<open>getattr on a name the object does not have\<close>
  | ValueError              \<comment> \<open>json.loads on a text that is no JSON\<close>

subsection \<open>Data\<close>

text \<open>
  A row of \<open>models.PluginOutput\<close>. The class itself is not part of the sources at
  hand; the columns are the attributes the module reads and writes. \<open>date_time\<close> is
  left out: the module only ever pops it from a dictionary. Times are numbers of
  seconds. Nullable columns the module tests or sets to \<open>None\<close> are options.
\<close>

record plugin_output =
  target_id :: int
  plugin_key :: string
  plugin_code :: string
  plugin_group :: string
  plugin_type :: string
  output_json :: "string option"   \<comment> \<open>the column output\<close>
  error :: "string option"
  start_time :: int
  end_time :: int
  status :: string
  user_notes :: "string option"
  user_rank :: int
  owtf_rank :: int
  output_path :: "string option"

text \<open>The \<open>plugin\<close> dictionary handed over by a worker, with the keys the module reads.\<close>

record plugin_info =
  pi_key :: string
  pi_code :: string
  pi_group :: string
  pi_type :: string
  pi_start :: int
  pi_end :: int
  pi_status :: string
  pi_output_path :: string
  pi_owtf_rank :: int

text \<open>A row of \<open>models.Work\<close>: a target and a plugin key still waiting.\<close>

type_synonym work = "int \<times> string"

text \<open>A row of \<open>models.Target\<close>, as far as the module reads it: its id and the ids of
  the sessions it belongs to.\<close>

record target =
  t_id :: int
  t_sessions :: "int list"

text \<open>What the module does to the outside, in the order it does it.\<close>

datatype event =
    RmTree string      \<comment> \<open>FileOperations.rm_tree(path)\<close>
  | DbMerge            \<comment> \<open>db.session.merge(obj)\<close>
  | DbDelete           \<comment> \<open>query.delete()\<close>
  | DbCommit           \<comment> \<open>db.session.commit(), succeeded\<close>
  | DbRollback         \<comment> \<open>db.session.rollback()\<close>

text \<open>
  The world. \<open>faults\<close> is the fate of the commits to come: the head says whether the
  next commit fails; no entry means it succeeds.
\<close>

record world =
  outputs :: "plugin_output list"
  works :: "work list"
  targets :: "target list"
  busy_workers :: int
  fs_paths :: "string list"
  current_target :: "int option"
  faults :: "bool list"
  trace :: "event list"

text \<open>
  A value decoded by \<open>json.loads\<close>. A number is kept as its text: its value plays
  no part. An object lists each key once.
\<close>

datatype json =
    JNull
  | JBool bool
  | JNumber string
  | JString string
  | JArray "json list"
  | JObject "(string \<times> json) list"

text \<open>
  Functions of libraries and collaborators that the module calls and that are not part
  of the sources at hand, taken as parameters:
  \<^item> \<open>json_dumps\<close> and \<open>json_loads\<close>: \<open>json.dumps\<close> and \<open>json.loads\<close>, the
    second with the exception it raises on a text it cannot decode;
  \<^item> \<open>int_of_str\<close>: Python's \<open>int()\<close> on a string, \<open>None\<close> for its
    \<open>ValueError\<close>;
  \<^item> \<open>get_plugin_output_dir\<close> and \<open>get_output_dir_target\<close> of
    \<open>config_handler\<close>;
  \<^item> \<open>reporter\<close>: \<open>getattr(reporter, name)\<close>, \<open>None\<close> when the reporter has
    no such attribute, else the method, which takes the keyword arguments and returns
    the HTML or raises;
  \<^item> \<open>strftime\<close>: \<open>strftime(DATE_TIME_FORMAT)\<close> of a time, and
    \<open>get_time_as_str\<close> of \<open>timer\<close>.
\<close>

record 'o env =
  json_dumps :: "'o \<Rightarrow> string"
  json_loads :: "string \<Rightarrow> exn + json"
  int_of_str :: "string \<Rightarrow> int option"
  get_plugin_output_dir :: "plugin_info \<Rightarrow> string"
  get_output_dir_target :: string
  reporter :: "string \<Rightarrow> ((string \<times> json) list \<Rightarrow> exn + string) option"
  strftime :: "int \<Rightarrow> string"
  get_time_as_str :: "int \<Rightarrow> string"

subsection \<open>The filter query engine: \<open>poutput_gen_query\<close>\<close>

text \<open>
  A filter value is a string or a list of strings. \<open>filter_data.get(k, None)\<close> is
  tested for truth: a missing key, an empty string and an empty list are all false.
\<close>

datatype fval = Str string | Lst "string list"

type_synonym filter_data = "string \<rightharpoonup> fval"

datatype str_col = PluginKey | PluginType | PluginGroup | PluginCode | Status

datatype int_col = UserRank | OwtfRank

datatype criterion =
    StrEq str_col string          \<comment> \<open>filter_by(col=value)\<close>
  | StrIn str_col "string list"   \<comment> \<open>filter(col.in_(values))\<close>
  | IntEq int_col int
  | IntIn int_col "int list"

text \<open>The query object under construction: the target of the first \<open>filter_by\<close>, the
  criteria added since, whether \<open>order_by(plugin_key.asc())\<close> was called, and the
  bounds of \<open>offset()\<close> and \<open>limit()\<close>.\<close>

record query =
  q_target :: int
  q_criteria :: "criterion list"
  q_ordered :: bool
  q_offset :: "int option"
  q_limit :: "int option"

definition add_criterion :: "criterion \<Rightarrow> query \<Rightarrow> query" where
  "add_criterion c q = q\<lparr>q_criteria := q_criteria q @ [c]\<rparr>"

text \<open>One of the five blocks for a string column.\<close>

definition str_filter :: "filter_data \<Rightarrow> string \<Rightarrow> str_col \<Rightarrow> query \<Rightarrow> query" where
  "str_filter fd name col q =
     (case fd name of
        None \<Rightarrow> q
      | Some (Str s) \<Rightarrow> if s = [] then q else add_criterion (StrEq col s) q
      | Some (Lst l) \<Rightarrow> if l = [] then q else add_criterion (StrIn col l) q)"

text \<open>One of the two blocks for an integer column; \<open>int()\<close> may raise \<open>ValueError\<close>,
  which the \<open>try\<close> turns into \<open>InvalidParameterType\<close>.\<close>

definition int_filter ::
  "'o env \<Rightarrow> filter_data \<Rightarrow> string \<Rightarrow> int_col \<Rightarrow> query \<Rightarrow> exn + query" where
  "int_filter env fd name col q =
     (case fd name of
        None \<Rightarrow> Inr q
      | Some (Str s) \<Rightarrow>
          if s = [] then Inr q
          else (case int_of_str env s of
                  None \<Rightarrow> Inl InvalidParameterType
                | Some n \<Rightarrow> Inr (add_criterion (IntEq col n) q))
      | Some (Lst l) \<Rightarrow>
          if l = [] then Inr q
          else (case those (map (int_of_str env) l) of
                  None \<Rightarrow> Inl InvalidParameterType
                | Some ns \<Rightarrow> Inr (add_criterion (IntIn col ns) q)))"

text \<open>The bound of \<open>offset\<close> or \<open>limit\<close>: only a non-empty list is looked at, and
  only its first element.\<close>

definition page_bound :: "'o env \<Rightarrow> filter_data \<Rightarrow> string \<Rightarrow> exn + int option" where
  "page_bound env fd name =
     (case fd name of
        Some (Lst (x # xs)) \<Rightarrow>
          (case int_of_str env x of
             None \<Rightarrow> Inl InvalidParameterType
           | Some n \<Rightarrow> Inr (Some n))
      | _ \<Rightarrow> Inr None)"

text \<open>
  \<open>poutput_gen_query\<close>. The block for \<open>target_id\<close> in the filter calls
  \<open>query.filter_by\<close> and drops the result, so it adds nothing.
\<close>

definition poutput_gen_query :: "'o env \<Rightarrow> filter_data \<Rightarrow> int \<Rightarrow> bool \<Rightarrow> exn + query" where
  "poutput_gen_query env fd tid for_delete =
     (let q0 = \<lparr>q_target = tid, q_criteria = [], q_ordered = False,
                 q_offset = None, q_limit = None\<rparr>;
          q1 = str_filter fd ''plugin_key'' PluginKey q0;
          q2 = str_filter fd ''plugin_type'' PluginType q1;
          q3 = str_filter fd ''plugin_group'' PluginGroup q2;
          q4 = str_filter fd ''plugin_code'' PluginCode q3;
          q5 = str_filter fd ''status'' Status q4
      in case int_filter env fd ''user_rank'' UserRank q5 of
           Inl e \<Rightarrow> Inl e
         | Inr q6 \<Rightarrow>
             (case int_filter env fd ''owtf_rank'' OwtfRank q6 of
                Inl e \<Rightarrow> Inl e
              | Inr q7 \<Rightarrow>
                  (let q8 = (if for_delete then q7 else q7\<lparr>q_ordered := True\<rparr>)
                   in case page_bound env fd ''offset'' of
                        Inl e \<Rightarrow> Inl e
                      | Inr off \<Rightarrow>
                          (case page_bound env fd ''limit'' of
                             Inl e \<Rightarrow> Inl e
                           | Inr lim \<Rightarrow>
                               Inr (q8\<lparr>q_offset := off, q_limit := lim\<rparr>)))))"

subsection \<open>Running a query\<close>

fun str_of :: "str_col \<Rightarrow> plugin_output \<Rightarrow> string" where
  "str_of PluginKey r = plugin_key r"
| "str_of PluginType r = plugin_type r"
| "str_of PluginGroup r = plugin_group r"
| "str_of PluginCode r = plugin_code r"
| "str_of Status r = status r"

fun int_of :: "int_col \<Rightarrow> plugin_output \<Rightarrow> int" where
  "int_of UserRank r = user_rank r"
| "int_of OwtfRank r = owtf_rank r"

fun holds :: "criterion \<Rightarrow> plugin_output \<Rightarrow> bool" where
  "holds (StrEq col s) r = (str_of col r = s)"
| "holds (StrIn col l) r = (str_of col r \<in> set l)"
| "holds (IntEq col n) r = (int_of col r = n)"
| "holds (IntIn col ns) r = (int_of col r \<in> set ns)"

text \<open>The rows the WHERE clause keeps, in table order.\<close>

definition selected :: "query \<Rightarrow> plugin_output \<Rightarrow> bool" where
  "selected q r = (target_id r = q_target q \<and> list_all (\<lambda>c. holds c r) (q_criteria q))"

text \<open>
  OFFSET and LIMIT. What a negative bound does is the database's business; here it is
  taken as no bound.
\<close>

definition apply_offset :: "int option \<Rightarrow> 'a list \<Rightarrow> 'a list" where
  "apply_offset off xs = (case off of None \<Rightarrow> xs | Some n \<Rightarrow> drop (nat n) xs)"

definition apply_limit :: "int option \<Rightarrow> 'a list \<Rightarrow> 'a list" where
  "apply_limit lim xs = (case lim of None \<Rightarrow> xs | Some n \<Rightarrow> if n < 0 then xs else take (nat n) xs)"

text \<open>\<open>query.all()\<close>: select, order by \<open>plugin_key\<close> ascending (ties in table order),
  then skip and cut.\<close>

definition query_all :: "query \<Rightarrow> plugin_output list \<Rightarrow> plugin_output list" where
  "query_all q rows =
     (let sel = filter (selected q) rows;
          ord = (if q_ordered q then sort_key plugin_key sel else sel)
      in apply_limit (q_limit q) (apply_offset (q_offset q) ord))"

text \<open>\<open>query.first()\<close>: the first row of the result, or \<open>None\<close>.\<close>

definition query_first :: "query \<Rightarrow> plugin_output list \<Rightarrow> plugin_output option" where
  "query_first q rows = (case query_all q rows of [] \<Rightarrow> None | r # rs \<Rightarrow> Some r)"

text \<open>\<open>query.delete()\<close>: the library refuses a query on which \<open>limit()\<close>,
  \<open>offset()\<close> or \<open>order_by()\<close> was called; otherwise the selected rows go. (Whether
  the library can delete by a membership criterion depends on its version; it is taken
  as able to.)\<close>

definition query_delete :: "query \<Rightarrow> plugin_output list \<Rightarrow> exn + plugin_output list" where
  "query_delete q rows =
     (if q_ordered q \<or> q_offset q \<noteq> None \<or> q_limit q \<noteq> None then Inl InvalidRequestError
      else Inr (filter (\<lambda>r. \<not> selected q r) rows))"

subsection \<open>Result dictionaries: \<open>get_plugin_output_dict\<close> and \<open>get_all_poutputs\<close>\<close>

text \<open>\<open>target_manager.set_target\<close>: the ambient current target.\<close>

definition set_target :: "int \<Rightarrow> world \<Rightarrow> world" where
  "set_target tid w = w\<lparr>current_target := Some tid\<rparr>"

text \<open>The dictionary built from a row. \<open>d_output\<close> is \<open>None\<close> when the key was
  popped.\<close>

record poutput_dict =
  d_target_id :: int
  d_plugin_key :: string
  d_plugin_code :: string
  d_plugin_group :: string
  d_plugin_type :: string
  d_output :: "string option option"
  d_error :: "string option"
  d_start_time :: string
  d_end_time :: string
  d_run_time :: string
  d_status :: string
  d_user_notes :: "string option"
  d_user_rank :: int
  d_owtf_rank :: int
  d_output_path :: "string option"

text \<open>\<open>item[key]\<close> for a string \<open>key\<close>: only a dictionary can be subscripted by
  a string, and it must have the key.\<close>

definition subscript :: "json \<Rightarrow> string \<Rightarrow> exn + json" where
  "subscript item key =
     (case item of
        JObject kvs \<Rightarrow> (case map_of kvs key of None \<Rightarrow> Inl KeyError | Some v \<Rightarrow> Inr v)
      | _ \<Rightarrow> Inl TypeError)"

text \<open>
  \<open>getattr(reporter, item["type"])(**item["output"])\<close>, in Python's order of
  evaluation: the type, the attribute of that name (a name that is no string is a
  \<open>TypeError\<close>), the output, which must be a mapping, and the call.
\<close>

definition render_item :: "'o env \<Rightarrow> json \<Rightarrow> exn + string" where
  "render_item env item =
     (case subscript item ''type'' of
        Inl e \<Rightarrow> Inl e
      | Inr t \<Rightarrow>
          (case t of
             JString name \<Rightarrow>
               (case reporter env name of
                  None \<Rightarrow> Inl AttributeError
                | Some method \<Rightarrow>
                    (case subscript item ''output'' of
                       Inl e \<Rightarrow> Inl e
                     | Inr out \<Rightarrow>
                         (case out of
                            JObject kwargs \<Rightarrow> method kwargs
                          | _ \<Rightarrow> Inl TypeError)))
           | _ \<Rightarrow> Inl TypeError))"

text \<open>The loop of \<open>get_html_output\<close> over the items of a list.\<close>

fun render_items :: "'o env \<Rightarrow> json list \<Rightarrow> string \<Rightarrow> exn + string" where
  "render_items env [] content = Inr content"
| "render_items env (item # items) content =
     (case render_item env item of
        Inl e \<Rightarrow> Inl e
      | Inr html \<Rightarrow> render_items env items (content @ html))"

text \<open>
  \<open>get_html_output\<close>. The \<open>for\<close> loop takes what it is given: a list gives its
  items; a dictionary gives its keys and a string its characters, and the first of them
  fails at \<open>item["type"]\<close>; anything else is not iterable.
\<close>

definition get_html_output :: "'o env \<Rightarrow> json \<Rightarrow> exn + string" where
  "get_html_output env plugin_output =
     (case plugin_output of
        JArray items \<Rightarrow> render_items env items []
      | JObject kvs \<Rightarrow> if kvs = [] then Inr [] else Inl TypeError
      | JString s \<Rightarrow> if s = [] then Inr [] else Inl TypeError
      | _ \<Rightarrow> Inl TypeError)"

text \<open>The dictionary of a row, given its \<open>output\<close> entry.\<close>

definition dict_with :: "'o env \<Rightarrow> plugin_output \<Rightarrow> string option option \<Rightarrow> poutput_dict" where
  "dict_with env obj out =
     \<lparr>d_target_id = target_id obj,
      d_plugin_key = plugin_key obj,
      d_plugin_code = plugin_code obj,
      d_plugin_group = plugin_group obj,
      d_plugin_type = plugin_type obj,
      d_output = out,
      d_error = error obj,
      d_start_time = strftime env (start_time obj),
      d_end_time = strftime env (end_time obj),
      d_run_time = get_time_as_str env (end_time obj - start_time obj),
      d_status = status obj,
      d_user_notes = user_notes obj,
      d_user_rank = user_rank obj,
      d_owtf_rank = owtf_rank obj,
      d_output_path = output_path obj\<rparr>"

text \<open>
  \<open>get_plugin_output_dict\<close>. With \<open>inc_output\<close> a stored output that is neither
  null nor empty is decoded and rendered, and what that raises the function raises;
  without, the key is popped.
\<close>

definition get_plugin_output_dict :: "'o env \<Rightarrow> bool \<Rightarrow> plugin_output \<Rightarrow> exn + poutput_dict" where
  "get_plugin_output_dict env inc_output obj =
     (if inc_output then
        (case output_json obj of
           None \<Rightarrow> Inr (dict_with env obj (Some None))
         | Some s \<Rightarrow>
             if s = [] then Inr (dict_with env obj (Some (Some s)))
             else (case json_loads env s of
                     Inl e \<Rightarrow> Inl e
                   | Inr decoded \<Rightarrow>
                       (case get_html_output env decoded of
                          Inl e \<Rightarrow> Inl e
                        | Inr html \<Rightarrow> Inr (dict_with env obj (Some (Some html))))))
      else Inr (dict_with env obj None))"

text \<open>The loop of \<open>get_plugin_output_dicts\<close>: it stops at the first row whose
  dictionary cannot be built.\<close>

fun dict_list :: "'o env \<Rightarrow> bool \<Rightarrow> plugin_output list \<Rightarrow> exn + poutput_dict list" where
  "dict_list env inc_output [] = Inr []"
| "dict_list env inc_output (obj # objs) =
     (case get_plugin_output_dict env inc_output obj of
        Inl e \<Rightarrow> Inl e
      | Inr d \<Rightarrow>
          (case dict_list env inc_output objs of
             Inl e \<Rightarrow> Inl e
           | Inr ds \<Rightarrow> Inr (d # ds)))"

text \<open>\<open>get_plugin_output_dicts\<close>; it, and every call it makes, sets the same target
  again when \<open>target_id\<close> is true (not 0).\<close>

definition get_plugin_output_dicts ::
  "'o env \<Rightarrow> plugin_output list \<Rightarrow> int \<Rightarrow> bool \<Rightarrow> world
     \<Rightarrow> (exn + poutput_dict list) \<times> world" where
  "get_plugin_output_dicts env obj_list tid inc_output w =
     (dict_list env inc_output obj_list, if tid \<noteq> 0 then set_target tid w else w)"

definition get_all_poutputs ::
  "'o env \<Rightarrow> filter_data option \<Rightarrow> int \<Rightarrow> bool \<Rightarrow> world \<Rightarrow> (exn + poutput_dict list) \<times> world" where
  "get_all_poutputs env filter_data tid inc_output w =
     (let fd = (case filter_data of None \<Rightarrow> Map.empty | Some f \<Rightarrow> f);
          w1 = set_target tid w
      in case poutput_gen_query env fd tid False of
           Inl e \<Rightarrow> (Inl e, w1)
         | Inr q \<Rightarrow> get_plugin_output_dicts env (query_all q (outputs w1)) tid inc_output w1)"

subsection \<open>The file system\<close>

definition path_exists :: "world \<Rightarrow> string \<Rightarrow> bool" where
  "path_exists w p = (p \<in> set (fs_paths w))"

text \<open>\<open>os.path.join(a, b)\<close> for two components.\<close>

definition path_join :: "string \<Rightarrow> string \<Rightarrow> string" where
  "path_join a b =
     (if b \<noteq> [] \<and> hd b = CHR ''/'' then b
      else if a = [] \<or> last a = CHR ''/'' then a @ b
      else a @ ''/'' @ b)"

text \<open>\<open>q\<close> is \<open>p\<close> or lies below it.\<close>

definition below :: "string \<Rightarrow> string \<Rightarrow> bool" where
  "below p q = (q = p \<or> take (length p + 1) q = p @ ''/'')"

text \<open>
  Modelled from the spec: \<open>FileOperations.rm_tree\<close> (owtf/utils/file.py is not among
  the sources). The spec: it recursively deletes the directory tree if it exists, and is
  a no-op if the tree is already absent.
\<close>

definition rm_tree :: "string \<Rightarrow> world \<Rightarrow> world" where
  "rm_tree p w = w\<lparr>fs_paths := filter (\<lambda>q. \<not> below p q) (fs_paths w),
                   trace := trace w @ [RmTree p]\<rparr>"

subsection \<open>The database session\<close>

text \<open>
  \<open>outputs\<close> holds the committed rows. \<open>commit pending\<close> makes the pending rows the
  committed ones unless the commit fails; then the committed rows stay.
\<close>

definition commit :: "plugin_output list \<Rightarrow> world \<Rightarrow> exn option \<times> world" where
  "commit pending w =
     (case faults w of
        [] \<Rightarrow> (None, w\<lparr>outputs := pending, trace := trace w @ [DbCommit]\<rparr>)
      | f # fs \<Rightarrow>
          if f then (Some SQLAlchemyError, w\<lparr>faults := fs\<rparr>)
          else (None, w\<lparr>outputs := pending, faults := fs, trace := trace w @ [DbCommit]\<rparr>))"

text \<open>
  Modelled from the spec: the identity of a row of \<open>models.PluginOutput\<close> (the class
  is not among the sources). The spec: one record table keyed by
  \<open>(target_id, plugin_group, plugin_type, plugin_code)\<close>.
\<close>

definition nkey :: "plugin_output \<Rightarrow> int \<times> string \<times> string \<times> string" where
  "nkey r = (target_id r, plugin_group r, plugin_type r, plugin_code r)"

subsection \<open>\<open>delete_all_poutput\<close>\<close>

text \<open>The body of the loop over \<open>query.all()\<close>: the folder of one plugin output
  goes, if the row has a path and the folder exists.\<close>

definition remove_folder :: "'o env \<Rightarrow> plugin_output \<Rightarrow> world \<Rightarrow> world" where
  "remove_folder env plugin w =
     (case output_path plugin of
        None \<Rightarrow> w
      | Some p \<Rightarrow>
          if p = [] then w
          else (let dir = path_join (get_output_dir_target env) p
                in if path_exists w dir then rm_tree dir w else w))"

text \<open>The loop.\<close>

fun remove_folders :: "'o env \<Rightarrow> plugin_output list \<Rightarrow> world \<Rightarrow> world" where
  "remove_folders env [] w = w"
| "remove_folders env (plugin # plugins) w = remove_folders env plugins (remove_folder env plugin w)"

definition delete_all_poutput :: "'o env \<Rightarrow> filter_data \<Rightarrow> int \<Rightarrow> world \<Rightarrow> exn option \<times> world" where
  "delete_all_poutput env fd tid w =
     (case poutput_gen_query env fd tid True of
        Inl e \<Rightarrow> (Some e, w)
      | Inr q \<Rightarrow>
          (let w1 = remove_folders env (query_all q (outputs w)) w
           in case query_delete q (outputs w1) of
                Inl e \<Rightarrow> (Some e, w1)
              | Inr rows \<Rightarrow> commit rows (w1\<lparr>trace := trace w1 @ [DbDelete]\<rparr>)))"

subsection \<open>\<open>update_poutput\<close>\<close>

text \<open>
  The patch: the two keys the function reads. A rank may come as an integer, a string or
  a list of strings; \<open>patch_data.get("user_rank", None)\<close> is tested for truth, and the
  integer 0 is false.
\<close>

datatype rank_val = RInt int | RStr string | RLst "string list"

record patch_data =
  p_user_rank :: "rank_val option"
  p_user_notes :: "fval option"

text \<open>The block for \<open>user_rank\<close>; \<open>None\<close> stands for the \<open>ValueError\<close> of
  \<open>int()\<close>.\<close>

definition patch_rank :: "'o env \<Rightarrow> patch_data \<Rightarrow> plugin_output \<Rightarrow> plugin_output option" where
  "patch_rank env patch obj =
     (case p_user_rank patch of
        None \<Rightarrow> Some obj
      | Some (RInt n) \<Rightarrow>
          if n = 0 then Some obj else Some (obj\<lparr>user_rank := n, owtf_rank := - 1\<rparr>)
      | Some (RStr s) \<Rightarrow>
          if s = [] then Some obj
          else map_option (\<lambda>n. obj\<lparr>user_rank := n, owtf_rank := - 1\<rparr>) (int_of_str env s)
      | Some (RLst l) \<Rightarrow>
          (case l of
             [] \<Rightarrow> Some obj
           | x # xs \<Rightarrow> map_option (\<lambda>n. obj\<lparr>user_rank := n, owtf_rank := - 1\<rparr>) (int_of_str env x)))"

definition patch_notes :: "patch_data \<Rightarrow> plugin_output \<Rightarrow> plugin_output" where
  "patch_notes patch obj =
     (case p_user_notes patch of
        None \<Rightarrow> obj
      | Some (Str s) \<Rightarrow> if s = [] then obj else obj\<lparr>user_notes := Some s\<rparr>
      | Some (Lst l) \<Rightarrow> (case l of [] \<Rightarrow> obj | x # xs \<Rightarrow> obj\<lparr>user_notes := Some x\<rparr>))"

text \<open>The row that \<open>obj\<close> stands for takes the new attribute values.\<close>

definition replace_row :: "plugin_output \<Rightarrow> plugin_output \<Rightarrow> plugin_output list \<Rightarrow> plugin_output list" where
  "replace_row old new rows = map (\<lambda>r. if nkey r = nkey old then new else r) rows"

definition update_poutput ::
  "'o env \<Rightarrow> string \<Rightarrow> string \<Rightarrow> string \<Rightarrow> patch_data \<Rightarrow> int \<Rightarrow> world \<Rightarrow> exn option \<times> world" where
  "update_poutput env plugin_group' plugin_type' plugin_code' patch tid w =
     (let plugin_dict = [''plugin_group'' \<mapsto> Str plugin_group',
                         ''plugin_type'' \<mapsto> Str plugin_type',
                         ''plugin_code'' \<mapsto> Str plugin_code']
      in case poutput_gen_query env plugin_dict tid False of
           Inl e \<Rightarrow> (Some e, w)
         | Inr q \<Rightarrow>
             (case query_first q (outputs w) of
                None \<Rightarrow> (None, w)
              | Some obj \<Rightarrow>
                  (case patch_rank env patch obj of
                     None \<Rightarrow> (Some InvalidParameterType, w)
                   | Some obj1 \<Rightarrow>
                       commit (replace_row obj (patch_notes patch obj1) (outputs w))
                         (w\<lparr>trace := trace w @ [DbMerge]\<rparr>))))"

subsection \<open>\<open>save_plugin_output\<close> and \<open>save_partial_output\<close>\<close>

text \<open>
  The object handed to \<open>db.session.merge\<close>: the attributes the constructor was given.
  \<open>n_error\<close> is \<open>None\<close> when the constructor was not given \<open>error\<close>;
  \<open>n_output_path\<close> is always given, and may be Python's \<open>None\<close>.
\<close>

record new_output =
  n_target_id :: int
  n_plugin_key :: string
  n_plugin_code :: string
  n_plugin_group :: string
  n_plugin_type :: string
  n_output :: string
  n_error :: "string option"
  n_start_time :: int
  n_end_time :: int
  n_status :: string
  n_output_path :: "string option"
  n_owtf_rank :: int

definition n_key :: "new_output \<Rightarrow> int \<times> string \<times> string \<times> string" where
  "n_key n = (n_target_id n, n_plugin_group n, n_plugin_type n, n_plugin_code n)"

text \<open>\<open>merge\<close> onto the row with the same identity: the attributes given are copied,
  the others stay.\<close>

definition merge_existing :: "new_output \<Rightarrow> plugin_output \<Rightarrow> plugin_output" where
  "merge_existing n old =
     old\<lparr>plugin_key := n_plugin_key n,
         output_json := Some (n_output n),
         error := (case n_error n of None \<Rightarrow> error old | Some m \<Rightarrow> Some m),
         start_time := n_start_time n,
         end_time := n_end_time n,
         status := n_status n,
         output_path := n_output_path n,
         owtf_rank := n_owtf_rank n\<rparr>"

text \<open>
  Modelled from the spec: the column default of \<open>user_rank\<close> in
  \<open>models.PluginOutput\<close> (not among the sources), -1, "not manually ranked". It is what
  a new row gets when \<open>merge\<close> finds no row of that identity; \<open>user_notes\<close> is not
  given either and stays null.
\<close>

definition insert_new :: "new_output \<Rightarrow> plugin_output" where
  "insert_new n =
     \<lparr>target_id = n_target_id n,
      plugin_key = n_plugin_key n,
      plugin_code = n_plugin_code n,
      plugin_group = n_plugin_group n,
      plugin_type = n_plugin_type n,
      output_json = Some (n_output n),
      error = n_error n,
      start_time = n_start_time n,
      end_time = n_end_time n,
      status = n_status n,
      user_notes = None,
      user_rank = - 1,
      owtf_rank = n_owtf_rank n,
      output_path = n_output_path n\<rparr>"

definition session_merge :: "new_output \<Rightarrow> plugin_output list \<Rightarrow> plugin_output list" where
  "session_merge n rows =
     (if n_key n \<in> set (map nkey rows)
      then map (\<lambda>r. if nkey r = n_key n then merge_existing n r else r) rows
      else rows @ [insert_new n])"

text \<open>The \<open>try: commit() except SQLAlchemyError: rollback(); raise\<close> of both save
  functions.\<close>

definition commit_or_rollback :: "plugin_output list \<Rightarrow> world \<Rightarrow> exn option \<times> world" where
  "commit_or_rollback pending w =
     (case commit pending w of
        (None, w') \<Rightarrow> (None, w')
      | (Some e, w') \<Rightarrow> (Some e, w'\<lparr>trace := trace w' @ [DbRollback]\<rparr>))"

definition save_plugin_output ::
  "'o env \<Rightarrow> plugin_info \<Rightarrow> 'o \<Rightarrow> int \<Rightarrow> world \<Rightarrow> exn option \<times> world" where
  "save_plugin_output env plugin out tid w =
     (let obj = \<lparr>n_target_id = tid,
                  n_plugin_key = pi_key plugin,
                  n_plugin_code = pi_code plugin,
                  n_plugin_group = pi_group plugin,
                  n_plugin_type = pi_type plugin,
                  n_output = json_dumps env out,
                  n_error = None,
                  n_start_time = pi_start plugin,
                  n_end_time = pi_end plugin,
                  n_status = pi_status plugin,
                  n_output_path =
                    (if path_exists w (get_plugin_output_dir env plugin)
                     then Some (pi_output_path plugin) else None),
                  n_owtf_rank = pi_owtf_rank plugin\<rparr>
      in commit_or_rollback (session_merge obj (outputs w)) (w\<lparr>trace := trace w @ [DbMerge]\<rparr>))"

definition save_partial_output ::
  "'o env \<Rightarrow> plugin_info \<Rightarrow> 'o \<Rightarrow> string \<Rightarrow> int \<Rightarrow> world \<Rightarrow> exn option \<times> world" where
  "save_partial_output env plugin out message tid w =
     (let obj = \<lparr>n_target_id = tid,
                  n_plugin_key = pi_key plugin,
                  n_plugin_code = pi_code plugin,
                  n_plugin_group = pi_group plugin,
                  n_plugin_type = pi_type plugin,
                  n_output = json_dumps env out,
                  n_error = Some message,
                  n_start_time = pi_start plugin,
                  n_end_time = pi_end plugin,
                  n_status = pi_status plugin,
                  n_output_path =
                    (if path_exists w (get_plugin_output_dir env plugin)
                     then Some (pi_output_path plugin) else None),
                  n_owtf_rank = pi_owtf_rank plugin\<rparr>
      in commit_or_rollback (session_merge obj (outputs w)) (w\<lparr>trace := trace w @ [DbMerge]\<rparr>))"

subsection \<open>\<open>plugin_count_output\<close>\<close>

record count_stats =
  complete_count :: int
  left_count :: int

definition plugin_count_output :: "world \<Rightarrow> count_stats" where
  "plugin_count_output w =
     (let complete_count = int (length (outputs w));
          left_count = int (length (works w));
          left_count = left_count + busy_workers w
      in \<lparr>complete_count = complete_count, left_count = left_count\<rparr>)"

subsection \<open>\<open>get_severity_freq\<close>\<close>

record bucket =
  sf_id :: int
  sf_label :: string
  sf_value :: int

definition severity_frequency :: "bucket list" where
  "severity_frequency =
     [\<lparr>sf_id = 0, sf_label = ''Passing'', sf_value = 0\<rparr>,
      \<lparr>sf_id = 1, sf_label = ''Info'', sf_value = 0\<rparr>,
      \<lparr>sf_id = 2, sf_label = ''Low'', sf_value = 0\<rparr>,
      \<lparr>sf_id = 3, sf_label = ''Medium'', sf_value = 0\<rparr>,
      \<lparr>sf_id = 4, sf_label = ''High'', sf_value = 0\<rparr>,
      \<lparr>sf_id = 5, sf_label = ''Critical'', sf_value = 0\<rparr>]"

text \<open>A Python list index: a negative one counts from the end; out of range is
  \<open>None\<close>.\<close>

definition py_index :: "nat \<Rightarrow> int \<Rightarrow> nat option" where
  "py_index n i =
     (if 0 \<le> i \<and> i < int n then Some (nat i)
      else if - int n \<le> i \<and> i < 0 then Some (nat (int n + i))
      else None)"

text \<open>\<open>severity_frequency[i]["value"] += 1\<close>\<close>

definition bump :: "bucket list \<Rightarrow> int \<Rightarrow> exn + bucket list" where
  "bump bs i =
     (case py_index (length bs) i of
        None \<Rightarrow> Inl IndexError
      | Some j \<Rightarrow> Inr (bs[j := (bs ! j)\<lparr>sf_value := sf_value (bs ! j) + 1\<rparr>]))"

text \<open>The target ids of the session.\<close>

definition session_targets :: "world \<Rightarrow> int \<Rightarrow> int list" where
  "session_targets w session_id =
     map t_id (filter (\<lambda>t. session_id \<in> set (t_sessions t)) (targets w))"

text \<open>The loop over all plugin outputs.\<close>

fun count_ranks :: "int list \<Rightarrow> plugin_output list \<Rightarrow> bucket list \<Rightarrow> exn + bucket list" where
  "count_ranks ts [] bs = Inr bs"
| "count_ranks ts (plugin_obj # plugin_objs) bs =
     (if target_id plugin_obj \<in> set ts then
        (if user_rank plugin_obj \<noteq> - 1 then
           (case bump bs (user_rank plugin_obj) of
              Inl e \<Rightarrow> Inl e
            | Inr bs' \<Rightarrow> count_ranks ts plugin_objs bs')
         else if owtf_rank plugin_obj \<noteq> - 1 then
           (case bump bs (owtf_rank plugin_obj) of
              Inl e \<Rightarrow> Inl e
            | Inr bs' \<Rightarrow> count_ranks ts plugin_objs bs')
         else count_ranks ts plugin_objs bs)
      else count_ranks ts plugin_objs bs)"

record severity_data =
  data :: "bucket list"

definition get_severity_freq :: "world \<Rightarrow> int \<Rightarrow> exn + severity_data" where
  "get_severity_freq w session_id =
     (case count_ranks (session_targets w session_id) (outputs w) severity_frequency of
        Inl e \<Rightarrow> Inl e
      | Inr bs \<Rightarrow> Inr \<lparr>data = rev bs\<rparr>)"

subsection \<open>Example values\<close>

text \<open>
  A reader of decimal integers, the \<open>int_of_str\<close> of the example environment. White
  space around the number is skipped (the characters 9 to 13, 32, 0x85 and 0xA0), one
  sign is allowed, then come the digits 0 to 9, with single underscores between two
  digits. On the strings of the examples (\<open>0\<close>, \<open>1\<close>, \<open>4\<close>, \<open>9\<close>, \<open>x\<close>,
  \<open>abc\<close> and the empty string) it gives what \<open>int()\<close> gives. The theorems hold
  for every \<open>int_of_str\<close> and do not use this one.
\<close>

definition is_space :: "char \<Rightarrow> bool" where
  "is_space c =
     (let n = (of_char c :: nat) in (9 \<le> n \<and> n \<le> 13) \<or> n = 32 \<or> n = 133 \<or> n = 160)"

definition strip :: "string \<Rightarrow> string" where
  "strip s = rev (dropWhile is_space (rev (dropWhile is_space s)))"

definition digit_val :: "char \<Rightarrow> nat option" where
  "digit_val c = (let n = (of_char c :: nat) in if 48 \<le> n \<and> n \<le> 57 then Some (n - 48) else None)"

text \<open>\<open>decimal prev acc cs\<close>: \<open>prev\<close> says that the character before was a digit.\<close>

fun decimal :: "bool \<Rightarrow> nat \<Rightarrow> string \<Rightarrow> nat option" where
  "decimal prev acc [] = (if prev then Some acc else None)"
| "decimal prev acc (c # cs) =
     (case digit_val c of
        Some d \<Rightarrow> decimal True (10 * acc + d) cs
      | None \<Rightarrow> if c = CHR ''_'' \<and> prev then decimal False acc cs else None)"

definition decimal_int :: "string \<Rightarrow> int option" where
  "decimal_int s =
     (case strip s of
        [] \<Rightarrow> None
      | c # cs \<Rightarrow>
          if c = CHR ''-'' then map_option (\<lambda>n. - int n) (decimal False 0 cs)
          else if c = CHR ''+'' then map_option int (decimal False 0 cs)
          else map_option int (decimal False 0 (c # cs)))"

text \<open>An environment for the examples: a decoder that knows three texts, and a
  reporter with one method, \<open>Text\<close>, that returns its \<open>msg\<close> argument.\<close>

definition ex_env :: "string env" where
  "ex_env =
     \<lparr>json_dumps = (\<lambda>s. CHR 0x22 # s @ [CHR 0x22]),
      json_loads =
        (\<lambda>s. if s = ''[]'' then Inr (JArray [])
             else if s = ''[1]'' then Inr (JArray [JNumber ''1''])
             else if s = ''{}'' then Inr (JObject [])
             else Inl ValueError),
      int_of_str = decimal_int,
      get_plugin_output_dir = (\<lambda>p. ''/out/'' @ pi_output_path p),
      get_output_dir_target = ''/out'',
      reporter =
        (\<lambda>name. if name = ''Text''
                then Some (\<lambda>kwargs. case map_of kwargs ''msg'' of
                                       Some (JString m) \<Rightarrow> Inr m
                                     | _ \<Rightarrow> Inl TypeError)
                else None),
      strftime = (\<lambda>t. if t < 20 then ''early'' else ''late''),
      get_time_as_str = (\<lambda>t. if t < 60 then ''0m'' else ''1m+'')\<rparr>"

text \<open>The example of the severity aggregation: a session 7 with the targets 1 and 2,
  and three records, one per target.\<close>

definition ex_plugin :: plugin_info where
  "ex_plugin =
     \<lparr>pi_key = ''active@OWTF-001'', pi_code = ''OWTF-001'', pi_group = ''web'',
      pi_type = ''active'', pi_start = 10, pi_end = 25, pi_status = ''Successful'',
      pi_output_path = ''web/active/OWTF-001'', pi_owtf_rank = 3\<rparr>"

definition row_a :: plugin_output where
  "row_a =
     \<lparr>target_id = 1, plugin_key = ''active@OWTF-001'', plugin_code = ''OWTF-001'',
      plugin_group = ''web'', plugin_type = ''active'', output_json = Some ''[]'',
      error = None, start_time = 10, end_time = 25, status = ''Successful'',
      user_notes = None, user_rank = 4, owtf_rank = - 1,
      output_path = Some ''web/active/OWTF-001''\<rparr>"

definition row_b :: plugin_output where
  "row_b =
     \<lparr>target_id = 2, plugin_key = ''passive@OWTF-002'', plugin_code = ''OWTF-002'',
      plugin_group = ''web'', plugin_type = ''passive'', output_json = Some ''[]'',
      error = None, start_time = 30, end_time = 31, status = ''Successful'',
      user_notes = None, user_rank = - 1, owtf_rank = 2, output_path = None\<rparr>"

definition row_c :: plugin_output where
  "row_c =
     \<lparr>target_id = 3, plugin_key = ''active@OWTF-001'', plugin_code = ''OWTF-001'',
      plugin_group = ''web'', plugin_type = ''active'', output_json = None,
      error = Some ''timeout'', start_time = 40, end_time = 45, status = ''Aborted'',
      user_notes = None, user_rank = 5, owtf_rank = - 1, output_path = None\<rparr>"

text \<open>Two more records of target 1, for the examples of ordering and pagination.\<close>

definition row_d :: plugin_output where
  "row_d =
     \<lparr>target_id = 1, plugin_key = ''passive@OWTF-002'', plugin_code = ''OWTF-002'',
      plugin_group = ''web'', plugin_type = ''passive'', output_json = Some ''[]'',
      error = None, start_time = 50, end_time = 55, status = ''Successful'',
      user_notes = None, user_rank = - 1, owtf_rank = 3, output_path = None\<rparr>"

definition row_e :: plugin_output where
  "row_e =
     \<lparr>target_id = 1, plugin_key = ''grep@OWTF-003'', plugin_code = ''OWTF-003'',
      plugin_group = ''web'', plugin_type = ''grep'', output_json = Some ''[]'',
      error = None, start_time = 60, end_time = 61, status = ''Successful'',
      user_notes = None, user_rank = - 1, owtf_rank = 0, output_path = None\<rparr>"

definition ex_world :: world where
  "ex_world =
     \<lparr>outputs = [row_a, row_b, row_c],
      works = [(1, ''passive@OWTF-002''), (3, ''passive@OWTF-002'')],
      targets = [\<lparr>t_id = 1, t_sessions = [7]\<rparr>, \<lparr>t_id = 2, t_sessions = [7, 8]\<rparr>,
                 \<lparr>t_id = 3, t_sessions = [8]\<rparr>],
      busy_workers = 1,
      fs_paths = [''/out'', ''/out/web/active/OWTF-001'',
                  ''/out/web/active/OWTF-001/report.txt''],
      current_target = None,
      faults = [],
      trace = []\<rparr>"

text \<open>The example world with one record only, of target 1, manually ranked \<open>k\<close>.\<close>

definition ranked_world :: "int \<Rightarrow> world" where
  "ranked_world k = ex_world\<lparr>outputs := [row_a\<lparr>user_rank := k\<rparr>]\<rparr>"

text \<open>The next commit succeeds.\<close>

definition next_commit_ok :: "world \<Rightarrow> bool" where
  "next_commit_ok w = (case faults w of [] \<Rightarrow> True | f # fs \<Rightarrow> \<not> f)"

subsection \<open>The filter semantics in the words of the specification\<close>

text \<open>
  The predicate of one field: a single string means equality, a list means membership,
  an absent field imposes no constraint. The values of a rank field are parsed as
  integers one by one.
\<close>

definition spec_str_pred :: "fval option \<Rightarrow> string \<Rightarrow> bool" where
  "spec_str_pred v x =
     (case v of None \<Rightarrow> True | Some (Str s) \<Rightarrow> x = s | Some (Lst l) \<Rightarrow> x \<in> set l)"

definition spec_int_pred :: "'o env \<Rightarrow> fval option \<Rightarrow> int \<Rightarrow> bool" where
  "spec_int_pred env v x =
     (case v of
        None \<Rightarrow> True
      | Some (Str s) \<Rightarrow> int_of_str env s = Some x
      | Some (Lst l) \<Rightarrow> Some x \<in> set (map (int_of_str env) l))"

text \<open>The conjunction of the per-field predicates.\<close>

definition spec_matches :: "'o env \<Rightarrow> filter_data \<Rightarrow> plugin_output \<Rightarrow> bool" where
  "spec_matches env fd r =
     (spec_str_pred (fd ''plugin_key'') (plugin_key r)
      \<and> spec_str_pred (fd ''plugin_type'') (plugin_type r)
      \<and> spec_str_pred (fd ''plugin_group'') (plugin_group r)
      \<and> spec_str_pred (fd ''plugin_code'') (plugin_code r)
      \<and> spec_str_pred (fd ''status'') (status r)
      \<and> spec_int_pred env (fd ''user_rank'') (user_rank r)
      \<and> spec_int_pred env (fd ''owtf_rank'') (owtf_rank r))"

text \<open>The amendment: an empty string and an empty list count as an absent field.\<close>

definition given :: "fval option \<Rightarrow> fval option" where
  "given v =
     (case v of
        None \<Rightarrow> None
      | Some (Str s) \<Rightarrow> if s = [] then None else Some (Str s)
      | Some (Lst l) \<Rightarrow> if l = [] then None else Some (Lst l))"

text \<open>A rank value that is given and does not parse: a non-empty string on which
  \<open>int()\<close> raises, or a list with an element on which it raises.\<close>

definition bad_rank :: "'o env \<Rightarrow> fval option \<Rightarrow> bool" where
  "bad_rank env v =
     (case v of
        None \<Rightarrow> False
      | Some (Str s) \<Rightarrow> s \<noteq> [] \<and> int_of_str env s = None
      | Some (Lst l) \<Rightarrow> None \<in> set (map (int_of_str env) l))"

text \<open>The pagination bound in the words of the specification: the value itself when it
  is single, the first element when it is a list.\<close>

definition spec_bound :: "'o env \<Rightarrow> fval option \<Rightarrow> int option" where
  "spec_bound env v =
     (case v of
        None \<Rightarrow> None
      | Some (Str s) \<Rightarrow> int_of_str env s
      | Some (Lst l) \<Rightarrow> (case l of [] \<Rightarrow> None | x # xs \<Rightarrow> int_of_str env x))"

text \<open>The amendment: only a list is read.\<close>

definition list_bound :: "'o env \<Rightarrow> fval option \<Rightarrow> int option" where
  "list_bound env v = (case v of Some (Lst (x # xs)) \<Rightarrow> int_of_str env x | _ \<Rightarrow> None)"

subsection \<open>The severity histogram in the words of the specification\<close>

text \<open>The rank of a record that counts: \<open>user_rank\<close> unless it is -1, else
  \<open>owtf_rank\<close> unless it is -1, else none.\<close>

definition eff_rank :: "plugin_output \<Rightarrow> int option" where
  "eff_rank r =
     (if user_rank r \<noteq> - 1 then Some (user_rank r)
      else if owtf_rank r \<noteq> - 1 then Some (owtf_rank r)
      else None)"

text \<open>A target id belongs to the session: there is a target of that id, and the
  session is among its sessions.\<close>

definition in_session :: "world \<Rightarrow> int \<Rightarrow> int \<Rightarrow> bool" where
  "in_session w session_id tid =
     (\<exists>t\<in>set (targets w). t_id t = tid \<and> session_id \<in> set (t_sessions t))"

text \<open>The number of records whose target belongs to the session and whose counting rank
  is \<open>i\<close>.\<close>

definition session_rank_count :: "world \<Rightarrow> int \<Rightarrow> int \<Rightarrow> int" where
  "session_rank_count w session_id i =
     int (length (filter (\<lambda>r. in_session w session_id (target_id r) \<and> eff_rank r = Some i)
                    (outputs w)))"

text \<open>The number of records, among the given targets, whose counting rank is \<open>i\<close>
  or \<open>i - 6\<close>: a negative Python index counts from the end of the six buckets.\<close>

definition wrap_count :: "int list \<Rightarrow> plugin_output list \<Rightarrow> int \<Rightarrow> int" where
  "wrap_count ts rows i =
     int (length (filter (\<lambda>r. target_id r \<in> set ts
                              \<and> (eff_rank r = Some i \<or> eff_rank r = Some (i - 6))) rows))"

text \<open>The six buckets, Critical first, with the counts \<open>c\<close>.\<close>

definition histogram :: "(int \<Rightarrow> int) \<Rightarrow> severity_data" where
  "histogram c =
     \<lparr>data =
        [\<lparr>sf_id = 5, sf_label = ''Critical'', sf_value = c 5\<rparr>,
         \<lparr>sf_id = 4, sf_label = ''High'', sf_value = c 4\<rparr>,
         \<lparr>sf_id = 3, sf_label = ''Medium'', sf_value = c 3\<rparr>,
         \<lparr>sf_id = 2, sf_label = ''Low'', sf_value = c 2\<rparr>,
         \<lparr>sf_id = 1, sf_label = ''Info'', sf_value = c 1\<rparr>,
         \<lparr>sf_id = 0, sf_label = ''Passing'', sf_value = c 0\<rparr>]\<rparr>"

section \<open>Properties\<close>

text \<open>The example values, for evaluation.\<close>

lemmas ex_defs = ex_env_def ex_plugin_def row_a_def row_b_def row_c_def ex_world_def

lemma length_by_key_set:
  "(\<Sum>k\<in>f ` set xs. int (length (filter (\<lambda>x. f x = k) xs))) = int (length xs)"
proof (induction xs)
  case Nil
  then show ?case by simp
next
  case (Cons x xs)
  let ?S = "f ` set xs"
  have fin: "finite (insert (f x) ?S)" by simp
  have a: "(\<Sum>k\<in>insert (f x) ?S. int (length (filter (\<lambda>y. f y = k) xs))) = int (length xs)"
  proof (cases "f x \<in> ?S")
    case True
    then show ?thesis using Cons.IH by (simp add: insert_absorb)
  next
    case False
    then have "filter (\<lambda>y. f y = f x) xs = []" by (auto simp: filter_empty_conv image_iff)
    then show ?thesis using False Cons.IH by simp
  qed
  have b: "(\<Sum>k\<in>insert (f x) ?S. (if f x = k then 1 else 0)) = (1::int)"
    using fin by (simp add: sum.delta' del: sum.insert)
  have "(\<Sum>k\<in>f ` set (x # xs). int (length (filter (\<lambda>y. f y = k) (x # xs))))
      = (\<Sum>k\<in>insert (f x) ?S. (if f x = k then 1 else 0) + int (length (filter (\<lambda>y. f y = k) xs)))"
    by (intro sum.cong) auto
  also have "\<dots> = 1 + int (length xs)"
    using a b by (simp add: sum.distrib del: sum.insert)
  finally show ?case by simp
qed

lemma length_by_key:
  "int (length xs) = (\<Sum>k\<leftarrow>remdups (map f xs). int (length (filter (\<lambda>x. f x = k) xs)))"
proof -
  have "(\<Sum>k\<leftarrow>remdups (map f xs). int (length (filter (\<lambda>x. f x = k) xs)))
      = (\<Sum>k\<in>set (remdups (map f xs)). int (length (filter (\<lambda>x. f x = k) xs)))"
    by (rule sum.distinct_set_conv_list [symmetric]) simp
  then show ?thesis using length_by_key_set [of f xs] by simp
qed

lemma distinct_filter_key:
  "distinct (map f xs) \<Longrightarrow> k \<in> f ` set xs \<Longrightarrow> \<exists>x. filter (\<lambda>r. f r = k) xs = [x]"
  by (induction xs) (auto simp: filter_empty_conv image_iff)

subsection \<open>Progress accounting\<close>

text \<open>
  Claim C8. \<open>plugin_count_output\<close> returns as \<open>complete_count\<close> the number of
  plugin output rows of all targets together (the sum, over the targets that have rows, of
  the rows of each) and as \<open>left_count\<close> the number of queued work rows plus the busy
  workers the worker pool reports; with 3 rows, 2 queued work items and 1 busy worker
  the result is \<open>{complete_count: 3, left_count: 3}\<close>.
\<close>

theorem plugin_count_output_progress:
  "complete_count (plugin_count_output w)
     = (\<Sum>t\<leftarrow>remdups (map target_id (outputs w)).
          int (length (filter (\<lambda>r. target_id r = t) (outputs w))))
   \<and> left_count (plugin_count_output w) = int (length (works w)) + busy_workers w
   \<and> (length (outputs w) = 3 \<and> length (works w) = 2 \<and> busy_workers w = 1
        \<longrightarrow> plugin_count_output w = \<lparr>complete_count = 3, left_count = 3\<rparr>)"
  using length_by_key [of "outputs w" target_id]
  by (simp add: plugin_count_output_def Let_def)

theorem plugin_count_output_progress_witness:
  "length (outputs ex_world) = 3 \<and> length (works ex_world) = 2 \<and> busy_workers ex_world = 1
   \<and> plugin_count_output ex_world = \<lparr>complete_count = 3, left_count = 3\<rparr>"
  using plugin_count_output_progress [of ex_world]
  by (simp add: ex_world_def)

subsection \<open>Saving\<close>

lemma commit_None: "commit pending w = (None, w') \<Longrightarrow> outputs w' = pending"
  by (auto simp: commit_def split: list.splits if_splits)

lemma commit_or_rollback_None: "commit_or_rollback pending w = (None, w') \<Longrightarrow> outputs w' = pending"
  by (auto simp: commit_or_rollback_def split: prod.splits option.splits dest: commit_None)

lemma nkey_merge_existing [simp]: "nkey (merge_existing n old) = nkey old"
  by (simp add: nkey_def merge_existing_def)

lemma nkey_insert_new [simp]: "nkey (insert_new n) = n_key n"
  by (simp add: nkey_def insert_new_def n_key_def)

lemma map_nkey_session_merge:
  "map nkey (session_merge n rows) =
     (if n_key n \<in> set (map nkey rows) then map nkey rows else map nkey rows @ [n_key n])"
  by (simp add: session_merge_def)

lemma session_merge_distinct:
  "distinct (map nkey rows) \<Longrightarrow> distinct (map nkey (session_merge n rows))"
  by (simp add: map_nkey_session_merge del: set_map)

lemma session_merge_has_key: "n_key n \<in> nkey ` set (session_merge n rows)"
  using arg_cong [OF map_nkey_session_merge [of n rows], of set] by (auto split: if_splits)

lemma session_merge_fields:
  assumes "r \<in> set (session_merge n rows)" and "nkey r = n_key n"
  shows "plugin_key r = n_plugin_key n \<and> output_json r = Some (n_output n)
       \<and> start_time r = n_start_time n \<and> end_time r = n_end_time n
       \<and> status r = n_status n \<and> output_path r = n_output_path n
       \<and> owtf_rank r = n_owtf_rank n
       \<and> (\<forall>m. n_error n = Some m \<longrightarrow> error r = Some m)"
proof (cases "n_key n \<in> set (map nkey rows)")
  case True
  then show ?thesis
    using assms by (auto simp: session_merge_def merge_existing_def split: if_splits)
next
  case False
  have "r' \<in> set rows \<Longrightarrow> nkey r' \<noteq> n_key n" for r'
    using False by (metis image_eqI list.set_map)
  then show ?thesis
    using assms False by (auto simp: session_merge_def insert_new_def)
qed


lemma session_merge_one:
  assumes "distinct (map nkey rows)"
  shows "\<exists>r. filter (\<lambda>r. nkey r = n_key n) (session_merge n rows) = [r]"
  using distinct_filter_key [OF session_merge_distinct [OF assms] session_merge_has_key] .

lemma save_plugin_output_rows:
  assumes "save_plugin_output env plugin out tid w = (None, w')"
  shows "\<exists>n. outputs w' = session_merge n (outputs w)
           \<and> n_key n = (tid, pi_group plugin, pi_type plugin, pi_code plugin)
           \<and> n_plugin_key n = pi_key plugin \<and> n_output n = json_dumps env out
           \<and> n_error n = None
           \<and> n_start_time n = pi_start plugin \<and> n_end_time n = pi_end plugin
           \<and> n_status n = pi_status plugin \<and> n_owtf_rank n = pi_owtf_rank plugin
           \<and> n_output_path n =
                (if path_exists w (get_plugin_output_dir env plugin)
                 then Some (pi_output_path plugin) else None)"
  using commit_or_rollback_None [OF assms [unfolded save_plugin_output_def Let_def]]
  by (intro exI conjI, assumption) (simp_all add: n_key_def)




lemmas save_defs = save_plugin_output_def save_partial_output_def commit_or_rollback_def
  commit_def session_merge_def merge_existing_def insert_new_def n_key_def nkey_def path_exists_def



lemma session_merge_length_same:
  "n_key n \<in> nkey ` set rows \<Longrightarrow> length (session_merge n rows) = length rows"
  by (simp add: session_merge_def)

text \<open>
  Claim C1. On a table whose rows have distinct keys, two calls of
  \<open>save_plugin_output\<close> that return, for the same target and for plugins of the same
  group, type and code, leave exactly one row with that key; the row carries what the
  second call gave: plugin key, serialized output, times, status, rank and output path.
  The second call adds no row.
\<close>

theorem save_plugin_output_twice:
  assumes "distinct (map nkey (outputs w))"
    and "pi_group p2 = pi_group p1" and "pi_type p2 = pi_type p1" and "pi_code p2 = pi_code p1"
    and "save_plugin_output env p1 o1 tid w = (None, w1)"
    and "save_plugin_output env p2 o2 tid w1 = (None, w2)"
  shows "\<exists>r. filter (\<lambda>r. nkey r = (tid, pi_group p1, pi_type p1, pi_code p1)) (outputs w2) = [r]
           \<and> plugin_key r = pi_key p2
           \<and> output_json r = Some (json_dumps env o2)
           \<and> start_time r = pi_start p2 \<and> end_time r = pi_end p2
           \<and> status r = pi_status p2
           \<and> owtf_rank r = pi_owtf_rank p2
           \<and> output_path r =
                (if path_exists w1 (get_plugin_output_dir env p2)
                 then Some (pi_output_path p2) else None)
           \<and> length (outputs w2) = length (outputs w1)"
proof -
  let ?k = "(tid, pi_group p1, pi_type p1, pi_code p1)"
  from save_plugin_output_rows [OF assms(5)] obtain n1 where
    n1: "outputs w1 = session_merge n1 (outputs w)" "n_key n1 = ?k"
    by blast
  from save_plugin_output_rows [OF assms(6)] obtain n2 where
    n2: "outputs w2 = session_merge n2 (outputs w1)" "n_key n2 = ?k"
      "n_plugin_key n2 = pi_key p2" "n_output n2 = json_dumps env o2"
      "n_start_time n2 = pi_start p2" "n_end_time n2 = pi_end p2"
      "n_status n2 = pi_status p2" "n_owtf_rank n2 = pi_owtf_rank p2"
      "n_output_path n2 = (if path_exists w1 (get_plugin_output_dir env p2)
                           then Some (pi_output_path p2) else None)"
    using assms(2-4) by auto
  have d1: "distinct (map nkey (outputs w1))"
    unfolding n1(1) by (rule session_merge_distinct [OF assms(1)])
  have in1: "n_key n2 \<in> nkey ` set (outputs w1)"
    unfolding n1(1) n2(2) n1(2) [symmetric] by (rule session_merge_has_key)
  from session_merge_one [OF d1, of n2] obtain r where
    r: "filter (\<lambda>r. nkey r = n_key n2) (outputs w2) = [r]"
    unfolding n2(1) by blast
  then have "r \<in> set (filter (\<lambda>r. nkey r = n_key n2) (outputs w2))"
    by simp
  then have "r \<in> set (session_merge n2 (outputs w1))" and "nkey r = n_key n2"
    unfolding n2(1) by simp_all
  from session_merge_fields [OF this] session_merge_length_same [OF in1] r
  show ?thesis
    unfolding n2 [symmetric] by (intro exI [of _ r]) simp
qed

theorem save_plugin_output_twice_witness:
  "distinct (map nkey (outputs ex_world))
   \<and> save_plugin_output ex_env ex_plugin ''first'' 2 ex_world
       = (None, snd (save_plugin_output ex_env ex_plugin ''first'' 2 ex_world))
   \<and> save_plugin_output ex_env ex_plugin ''second'' 2
         (snd (save_plugin_output ex_env ex_plugin ''first'' 2 ex_world))
       = (None, snd (save_plugin_output ex_env ex_plugin ''second'' 2
                       (snd (save_plugin_output ex_env ex_plugin ''first'' 2 ex_world))))
   \<and> (\<exists>r. filter (\<lambda>r. nkey r = (2, ''web'', ''active'', ''OWTF-001''))
              (outputs (snd (save_plugin_output ex_env ex_plugin ''second'' 2
                               (snd (save_plugin_output ex_env ex_plugin ''first'' 2 ex_world)))))
            = [r]
          \<and> output_json r = Some (json_dumps ex_env ''second''))"
proof -
  let ?w1 = "snd (save_plugin_output ex_env ex_plugin ''first'' 2 ex_world)"
  let ?w2 = "snd (save_plugin_output ex_env ex_plugin ''second'' 2 ?w1)"
  have d: "distinct (map nkey (outputs ex_world))"
    by (simp add: ex_defs nkey_def)
  have s1: "save_plugin_output ex_env ex_plugin ''first'' 2 ex_world = (None, ?w1)"
    by (simp add: save_defs ex_defs)
  have s2: "save_plugin_output ex_env ex_plugin ''second'' 2 ?w1 = (None, ?w2)"
    by (simp add: save_defs ex_defs)
  from save_plugin_output_twice [OF d refl refl refl s1 s2]
  have "\<exists>r. filter (\<lambda>r. nkey r = (2, ''web'', ''active'', ''OWTF-001'')) (outputs ?w2) = [r]
          \<and> output_json r = Some (json_dumps ex_env ''second'')"
    by (auto simp: ex_plugin_def)
  with d s1 s2 show ?thesis by blast
qed

subsection \<open>The filter query engine\<close>

lemma selected_add_criterion [simp]:
  "selected (add_criterion c q) r = (selected q r \<and> holds c r)"
  by (auto simp: selected_def add_criterion_def)

lemma add_criterion_fields [simp]:
  "q_target (add_criterion c q) = q_target q"
  "q_ordered (add_criterion c q) = q_ordered q"
  "q_offset (add_criterion c q) = q_offset q"
  "q_limit (add_criterion c q) = q_limit q"
  by (simp_all add: add_criterion_def)

lemma str_filter_fields [simp]:
  "q_target (str_filter fd name col q) = q_target q"
  "q_ordered (str_filter fd name col q) = q_ordered q"
  "q_offset (str_filter fd name col q) = q_offset q"
  "q_limit (str_filter fd name col q) = q_limit q"
  by (simp_all add: str_filter_def split: option.splits fval.splits)

lemma selected_str_filter [simp]:
  "selected (str_filter fd name col q) r =
     (selected q r \<and> spec_str_pred (given (fd name)) (str_of col r))"
  by (simp add: str_filter_def spec_str_pred_def given_def split: option.splits fval.splits)

lemma those_None: "those xs = None \<longleftrightarrow> None \<in> set xs"
  by (induction xs) (auto split: option.splits)

lemma those_Some: "those xs = Some ys \<Longrightarrow> Some y \<in> set xs \<longleftrightarrow> y \<in> set ys"
  by (induction xs arbitrary: ys) (auto split: option.splits)

lemma int_filter_bad:
  assumes "bad_rank env (fd name)"
  shows "int_filter env fd name col q = Inl InvalidParameterType"
proof (cases "fd name")
  case None
  with assms show ?thesis by (simp add: bad_rank_def)
next
  case (Some v)
  note bad = assms
  show ?thesis
  proof (cases v)
    case (Str s)
    with Some bad show ?thesis by (simp add: int_filter_def bad_rank_def)
  next
    case (Lst l)
    with Some bad have "those (map (int_of_str env) l) = None" and "l \<noteq> []"
      by (auto simp: bad_rank_def those_None)
    with Some Lst show ?thesis by (simp add: int_filter_def)
  qed
qed

lemma int_filter_good:
  assumes "\<not> bad_rank env (fd name)"
  shows "\<exists>q'. int_filter env fd name col q = Inr q'
           \<and> q_target q' = q_target q \<and> q_ordered q' = q_ordered q
           \<and> q_offset q' = q_offset q \<and> q_limit q' = q_limit q
           \<and> (\<forall>r. selected q' r =
                 (selected q r \<and> spec_int_pred env (given (fd name)) (int_of col r)))"
proof (cases "fd name")
  case None
  then show ?thesis by (simp add: int_filter_def spec_int_pred_def given_def)
next
  case (Some v)
  show ?thesis
  proof (cases v)
    case (Str s)
    with Some assms show ?thesis
      by (auto simp: int_filter_def spec_int_pred_def given_def bad_rank_def)
  next
    case (Lst l)
    show ?thesis
    proof (cases "l = []")
      case True
      with Some Lst show ?thesis by (simp add: int_filter_def spec_int_pred_def given_def)
    next
      case False
      from assms Some Lst have "those (map (int_of_str env) l) \<noteq> None"
        by (simp add: bad_rank_def those_None)
      then obtain ns where ns: "those (map (int_of_str env) l) = Some ns" by blast
      with Some Lst False those_Some [OF ns] show ?thesis
        by (simp add: int_filter_def spec_int_pred_def given_def del: set_map)
    qed
  qed
qed


lemma selected_updates [simp]:
  "selected (q\<lparr>q_ordered := b\<rparr>) r = selected q r"
  "selected (q\<lparr>q_offset := off, q_limit := lim\<rparr>) r = selected q r"
  by (simp_all add: selected_def)

lemma page_bound_cases:
  "page_bound env fd name = Inl InvalidParameterType \<or> page_bound env fd name = Inr (list_bound env (fd name))"
  by (auto simp: page_bound_def list_bound_def split: option.splits fval.splits list.splits)

lemma page_bound_Inr: "page_bound env fd name = Inr b \<Longrightarrow> b = list_bound env (fd name)"
  using page_bound_cases [of env fd name] by auto

lemma poutput_gen_query_ok:
  assumes "\<not> bad_rank env (fd ''user_rank'')" and "\<not> bad_rank env (fd ''owtf_rank'')"
    and "page_bound env fd ''offset'' = Inr off" and "page_bound env fd ''limit'' = Inr lim"
  shows "\<exists>q. poutput_gen_query env fd tid for_delete = Inr q
           \<and> q_target q = tid \<and> q_ordered q = (\<not> for_delete)
           \<and> q_offset q = off \<and> q_limit q = lim
           \<and> (\<forall>r. selected q r = (target_id r = tid \<and> spec_matches env (given \<circ> fd) r))"
proof -
  let ?q0 = "\<lparr>q_target = tid, q_criteria = [], q_ordered = False,
               q_offset = None, q_limit = None\<rparr>"
  let ?q5 = "str_filter fd ''status'' Status
              (str_filter fd ''plugin_code'' PluginCode
                (str_filter fd ''plugin_group'' PluginGroup
                  (str_filter fd ''plugin_type'' PluginType
                    (str_filter fd ''plugin_key'' PluginKey ?q0))))"
  have s0: "selected ?q0 r = (target_id r = tid)" for r
    by (simp add: selected_def)
  from int_filter_good [of env fd "''user_rank''" UserRank ?q5] assms(1) obtain q6 where
    q6: "int_filter env fd ''user_rank'' UserRank ?q5 = Inr q6"
      "q_target q6 = tid" "q_ordered q6 = False"
      "\<And>r. selected q6 r = (selected ?q5 r \<and> spec_int_pred env (given (fd ''user_rank'')) (user_rank r))"
    by auto
  from int_filter_good [of env fd "''owtf_rank''" OwtfRank q6] assms(2) obtain q7 where
    q7: "int_filter env fd ''owtf_rank'' OwtfRank q6 = Inr q7"
      "q_target q7 = tid" "q_ordered q7 = False"
      "\<And>r. selected q7 r = (selected q6 r \<and> spec_int_pred env (given (fd ''owtf_rank'')) (owtf_rank r))"
    using q6(2,3) by auto
  have sel: "selected q7 r = (target_id r = tid \<and> spec_matches env (given \<circ> fd) r)" for r
    by (simp add: q7(4) q6(4) s0 spec_matches_def conj_ac)
  show ?thesis
    unfolding poutput_gen_query_def Let_def
    by (simp add: q6(1) q7(1-3) assms(3,4) sel)
qed

lemma poutput_gen_query_Inr:
  assumes "poutput_gen_query env fd tid for_delete = Inr q"
  shows "\<not> bad_rank env (fd ''user_rank'') \<and> \<not> bad_rank env (fd ''owtf_rank'')
       \<and> page_bound env fd ''offset'' = Inr (q_offset q)
       \<and> page_bound env fd ''limit'' = Inr (q_limit q)"
proof -
  have u: "\<not> bad_rank env (fd ''user_rank'')"
  proof
    assume "bad_rank env (fd ''user_rank'')"
    with int_filter_bad [of env fd "''user_rank''"] assms show False
      by (simp add: poutput_gen_query_def Let_def)
  qed
  have o: "\<not> bad_rank env (fd ''owtf_rank'')"
  proof
    assume "bad_rank env (fd ''owtf_rank'')"
    with int_filter_bad [of env fd "''owtf_rank''"] assms show False
      by (simp add: poutput_gen_query_def Let_def split: sum.splits)
  qed
  from assms have "page_bound env fd ''offset'' = Inr (q_offset q) \<and>
      page_bound env fd ''limit'' = Inr (q_limit q)"
    by (auto simp: poutput_gen_query_def Let_def split: sum.splits)
  with u o show ?thesis by simp
qed

lemma poutput_gen_query_bad:
  assumes "bad_rank env (fd ''user_rank'') \<or> bad_rank env (fd ''owtf_rank'')"
  shows "poutput_gen_query env fd tid for_delete = Inl InvalidParameterType"
proof (cases "bad_rank env (fd ''user_rank'')")
  case True
  with int_filter_bad [of env fd "''user_rank''"] show ?thesis
    by (simp add: poutput_gen_query_def Let_def)
next
  case False
  with assms have b: "bad_rank env (fd ''owtf_rank'')" by simp
  let ?q5 = "str_filter fd ''status'' Status
              (str_filter fd ''plugin_code'' PluginCode
                (str_filter fd ''plugin_group'' PluginGroup
                  (str_filter fd ''plugin_type'' PluginType
                    (str_filter fd ''plugin_key'' PluginKey
                      \<lparr>q_target = tid, q_criteria = [], q_ordered = False,
                       q_offset = None, q_limit = None\<rparr>))))"
  from int_filter_good [of env fd "''user_rank''" UserRank ?q5] False obtain q6 where
    "int_filter env fd ''user_rank'' UserRank ?q5 = Inr q6" by auto
  with int_filter_bad [of env fd "''owtf_rank''" OwtfRank q6] b show ?thesis
    by (simp add: poutput_gen_query_def Let_def)
qed

lemma selected_no_criteria:
  "selected \<lparr>q_target = tid, q_criteria = [], q_ordered = b, q_offset = off, q_limit = lim\<rparr>
     = (\<lambda>r. target_id r = tid)"
  by (rule ext) (simp add: selected_def)



lemma get_plugin_output_dict_plain [simp]:
  "get_plugin_output_dict env False r = Inr (dict_with env r None)"
  by (simp add: get_plugin_output_dict_def)





lemmas query_defs = poutput_gen_query_def str_filter_def int_filter_def page_bound_def
  add_criterion_def query_all_def selected_def apply_offset_def apply_limit_def
  get_all_poutputs_def get_plugin_output_dicts_def set_target_def

lemmas decimal_int_defs = decimal_int_def strip_def is_space_def digit_val_def




text \<open>
  Claim C7, amended. When \<open>user_rank\<close> or \<open>owtf_rank\<close> of the filter is a non-empty
  string on which \<open>int()\<close> raises, or a list with an element on which it raises,
  \<open>poutput_gen_query\<close> raises \<open>InvalidParameterType\<close>; \<open>get_all_poutputs\<close> raises
  it with the rows, the file system and the trace of effects as they were (it has set
  the current target before), and \<open>delete_all_poutput\<close> raises it with the world
  unchanged.
\<close>

theorem rank_filter_rejected:
  assumes "bad_rank env (fd ''user_rank'') \<or> bad_rank env (fd ''owtf_rank'')"
  shows "poutput_gen_query env fd tid for_delete = Inl InvalidParameterType
       \<and> get_all_poutputs env (Some fd) tid inc w = (Inl InvalidParameterType, set_target tid w)
       \<and> outputs (snd (get_all_poutputs env (Some fd) tid inc w)) = outputs w
       \<and> fs_paths (snd (get_all_poutputs env (Some fd) tid inc w)) = fs_paths w
       \<and> trace (snd (get_all_poutputs env (Some fd) tid inc w)) = trace w
       \<and> delete_all_poutput env fd tid w = (Some InvalidParameterType, w)"
  using poutput_gen_query_bad [OF assms, of tid False] poutput_gen_query_bad [OF assms, of tid True]
    poutput_gen_query_bad [OF assms, of tid for_delete]
  by (simp add: get_all_poutputs_def delete_all_poutput_def set_target_def Let_def)

theorem rank_filter_rejected_witness:
  "bad_rank ex_env ([''user_rank'' \<mapsto> Str ''x''] ''user_rank'')
   \<and> bad_rank ex_env ([''owtf_rank'' \<mapsto> Lst [''1'', ''abc'']] ''owtf_rank'')
   \<and> get_all_poutputs ex_env (Some [''user_rank'' \<mapsto> Str ''x'']) 1 False ex_world
       = (Inl InvalidParameterType, set_target 1 ex_world)
   \<and> delete_all_poutput ex_env [''owtf_rank'' \<mapsto> Lst [''1'', ''abc'']] 1 ex_world
       = (Some InvalidParameterType, ex_world)"
proof -
  have h1: "bad_rank ex_env ([''user_rank'' \<mapsto> Str ''x''] ''user_rank'')"
    by (simp add: bad_rank_def ex_env_def decimal_int_defs)
  have h2: "bad_rank ex_env ([''owtf_rank'' \<mapsto> Lst [''1'', ''abc'']] ''owtf_rank'')"
    by (simp add: bad_rank_def ex_env_def decimal_int_defs)
  from rank_filter_rejected [where fd = "[''user_rank'' \<mapsto> Str ''x'']" and tid = 1
        and for_delete = False and env = ex_env and inc = False and w = ex_world]
    rank_filter_rejected [where fd = "[''owtf_rank'' \<mapsto> Lst [''1'', ''abc'']]" and tid = 1
        and for_delete = False and env = ex_env and inc = False and w = ex_world]
    h1 h2
  show ?thesis by simp
qed

text \<open>
  Claim C7 as stated fails for the empty string: \<open>int()\<close> raises on it, and the
  query takes it for an absent field and returns rows.
\<close>

theorem empty_rank_string_counterexample:
  "int_of_str ex_env '''' = None
   \<and> get_all_poutputs ex_env (Some [''user_rank'' \<mapsto> Str '''']) 1 False ex_world
       = (Inr [dict_with ex_env row_a None], set_target 1 ex_world)"
  by (simp add: query_defs Let_def ex_defs decimal_int_defs)

lemma spec_matches_without_page:
  "spec_matches env (given \<circ> fd(''offset'' := None, ''limit'' := None)) r = spec_matches env (given \<circ> fd) r"
  by (simp add: spec_matches_def)

text \<open>
  Claim C6, amended. Of the values of \<open>offset\<close> and \<open>limit\<close> only a non-empty list
  is read: its first element, read by \<open>int()\<close>, is the bound. A single string is not
  read, and the bound stays unset, as it does when the field is absent. The query with
  the bounds returns what the same filter without \<open>offset\<close> and \<open>limit\<close> returns,
  selected and ordered, with the offset skipped first and the limit cut after; with no
  bound set that is the full ordered result.
\<close>

theorem pagination_applied_last:
  assumes "poutput_gen_query env fd tid for_delete = Inr q"
  shows "q_offset q = list_bound env (fd ''offset'') \<and> q_limit q = list_bound env (fd ''limit'')
       \<and> (\<exists>q0. poutput_gen_query env (fd(''offset'' := None, ''limit'' := None)) tid for_delete = Inr q0
                \<and> q_offset q0 = None \<and> q_limit q0 = None
                \<and> query_all q0 rows =
                     (if for_delete then filter (selected q0) rows
                      else sort_key plugin_key (filter (selected q0) rows))
                \<and> query_all q rows =
                     apply_limit (q_limit q) (apply_offset (q_offset q) (query_all q0 rows))
                \<and> (list_bound env (fd ''offset'') = None \<and> list_bound env (fd ''limit'') = None
                      \<longrightarrow> query_all q rows = query_all q0 rows)
                \<and> (\<forall>a b. q_offset q = Some a \<and> q_limit q = Some b \<and> 0 \<le> a \<and> 0 \<le> b
                      \<longrightarrow> query_all q rows = take (nat b) (drop (nat a) (query_all q0 rows))))"
proof -
  let ?fdn = "fd(''offset'' := None, ''limit'' := None)"
  from poutput_gen_query_Inr [OF assms] have
    ok: "\<not> bad_rank env (fd ''user_rank'')" "\<not> bad_rank env (fd ''owtf_rank'')"
      "page_bound env fd ''offset'' = Inr (q_offset q)" "page_bound env fd ''limit'' = Inr (q_limit q)"
    by simp_all
  have b: "q_offset q = list_bound env (fd ''offset'')" "q_limit q = list_bound env (fd ''limit'')"
    using page_bound_Inr [OF ok(3)] page_bound_Inr [OF ok(4)] by simp_all
  from poutput_gen_query_ok [OF ok, of tid for_delete] assms have
    q: "q_ordered q = (\<not> for_delete)"
       "\<And>r. selected q r = (target_id r = tid \<and> spec_matches env (given \<circ> fd) r)"
    by auto
  have ok0: "\<not> bad_rank env (?fdn ''user_rank'')" "\<not> bad_rank env (?fdn ''owtf_rank'')"
      "page_bound env ?fdn ''offset'' = Inr None" "page_bound env ?fdn ''limit'' = Inr None"
    using ok(1,2) by (simp_all add: page_bound_def)
  from poutput_gen_query_ok [OF ok0, of tid for_delete] obtain q0 where
    q0: "poutput_gen_query env ?fdn tid for_delete = Inr q0" "q_ordered q0 = (\<not> for_delete)"
      "q_offset q0 = None" "q_limit q0 = None"
      "\<And>r. selected q0 r = (target_id r = tid \<and> spec_matches env (given \<circ> ?fdn) r)"
    by auto
  have same: "selected q0 = selected q"
    by (rule ext) (simp add: q0(5) q(2) spec_matches_without_page)
  have all0: "query_all q0 rows =
      (if for_delete then filter (selected q0) rows
       else sort_key plugin_key (filter (selected q0) rows))"
    by (simp add: query_all_def Let_def q0(2-4) apply_limit_def apply_offset_def)
  have all: "query_all q rows = apply_limit (q_limit q) (apply_offset (q_offset q) (query_all q0 rows))"
    by (simp add: all0 same) (simp add: query_all_def Let_def q(1))
  have none: "list_bound env (fd ''offset'') = None \<and> list_bound env (fd ''limit'') = None
      \<longrightarrow> query_all q rows = query_all q0 rows"
    using all b by (simp add: apply_limit_def apply_offset_def)
  have some: "\<forall>a b. q_offset q = Some a \<and> q_limit q = Some b \<and> 0 \<le> a \<and> 0 \<le> b
      \<longrightarrow> query_all q rows = take (nat b) (drop (nat a) (query_all q0 rows))"
    using all by (simp add: apply_limit_def apply_offset_def)
  from b q0(1,3,4) all0 all none some show ?thesis by blast
qed

theorem pagination_applied_last_witness:
  "poutput_gen_query ex_env [''offset'' \<mapsto> Lst [''1'', ''9''], ''limit'' \<mapsto> Lst [''1'']] 1 False
     = Inr \<lparr>q_target = 1, q_criteria = [], q_ordered = True, q_offset = Some 1, q_limit = Some 1\<rparr>
   \<and> list_bound ex_env ([''offset'' \<mapsto> Lst [''1'', ''9''], ''limit'' \<mapsto> Lst [''1'']] ''offset'') = Some 1
   \<and> list_bound ex_env ([''offset'' \<mapsto> Lst [''1'', ''9''], ''limit'' \<mapsto> Lst [''1'']] ''limit'') = Some 1
   \<and> query_all \<lparr>q_target = 1, q_criteria = [], q_ordered = True, q_offset = None, q_limit = None\<rparr>
        [row_d, row_a, row_b, row_e] = [row_a, row_e, row_d]
   \<and> query_all \<lparr>q_target = 1, q_criteria = [], q_ordered = True, q_offset = Some 1, q_limit = Some 1\<rparr>
        [row_d, row_a, row_b, row_e] = [row_e]"
proof -
  let ?fd = "[''offset'' \<mapsto> Lst [''1'', ''9''], ''limit'' \<mapsto> Lst [''1'']]"
  let ?q = "\<lparr>q_target = 1, q_criteria = [], q_ordered = True, q_offset = Some 1, q_limit = Some 1\<rparr>"
  let ?qn = "\<lparr>q_target = 1, q_criteria = [], q_ordered = True, q_offset = None, q_limit = None\<rparr>"
  have pb: "page_bound ex_env ?fd ''offset'' = Inr (Some 1)" "page_bound ex_env ?fd ''limit'' = Inr (Some 1)"
    by (simp_all add: page_bound_def ex_env_def decimal_int_defs)
  have h: "poutput_gen_query ex_env ?fd 1 False = Inr ?q"
    by (simp add: poutput_gen_query_def str_filter_def int_filter_def pb)
  have h0: "poutput_gen_query ex_env (?fd(''offset'' := None, ''limit'' := None)) 1 False = Inr ?qn"
    by (simp add: poutput_gen_query_def str_filter_def int_filter_def page_bound_def)
  have s: "sort_key plugin_key (filter (selected ?qn) [row_d, row_a, row_b, row_e]) = [row_a, row_e, row_d]"
    by (simp add: selected_def row_a_def row_b_def row_d_def row_e_def)
  from pagination_applied_last [OF h, of "[row_d, row_a, row_b, row_e]"] obtain qz where
    b: "q_offset ?q = list_bound ex_env (?fd ''offset'')" "q_limit ?q = list_bound ex_env (?fd ''limit'')"
    and z: "poutput_gen_query ex_env (?fd(''offset'' := None, ''limit'' := None)) 1 False = Inr qz"
      "query_all qz [row_d, row_a, row_b, row_e] =
         (if False then filter (selected qz) [row_d, row_a, row_b, row_e]
          else sort_key plugin_key (filter (selected qz) [row_d, row_a, row_b, row_e]))"
      "\<forall>a b. q_offset ?q = Some a \<and> q_limit ?q = Some b \<and> 0 \<le> a \<and> 0 \<le> b
         \<longrightarrow> query_all ?q [row_d, row_a, row_b, row_e]
               = take (nat b) (drop (nat a) (query_all qz [row_d, row_a, row_b, row_e]))"
    by blast
  from z(1) h0 have qz: "qz = ?qn" by simp
  have all0: "query_all ?qn [row_d, row_a, row_b, row_e] = [row_a, row_e, row_d]"
    using z(2) unfolding qz s by simp
  have "query_all ?q [row_d, row_a, row_b, row_e]
      = take (nat 1) (drop (nat 1) (query_all ?qn [row_d, row_a, row_b, row_e]))"
    using z(3) unfolding qz by simp
  then have all: "query_all ?q [row_d, row_a, row_b, row_e] = [row_e]"
    unfolding all0 by simp
  from b have "list_bound ex_env (?fd ''offset'') = Some 1" "list_bound ex_env (?fd ''limit'') = Some 1"
    by simp_all
  with h all0 all show ?thesis by simp
qed

text \<open>
  Claim C6 as stated fails for a single value: with \<open>offset\<close> given as the string
  \<open>"1"\<close> the specification's bound is 1, which would skip the only record of target
  1, and the query returns that record.
\<close>

theorem single_offset_ignored_counterexample:
  "spec_bound ex_env ([''offset'' \<mapsto> Str ''1''] ''offset'') = Some 1
   \<and> apply_offset (Some 1) [row_a] = []
   \<and> get_all_poutputs ex_env (Some [''offset'' \<mapsto> Str ''1'']) 1 False ex_world
       = (Inr [dict_with ex_env row_a None], set_target 1 ex_world)"
  by (simp add: query_defs Let_def ex_defs decimal_int_defs spec_bound_def)

subsection \<open>Deleting\<close>

lemma rm_tree_fields [simp]:
  "outputs (rm_tree p w) = outputs w"
  "faults (rm_tree p w) = faults w"
  "trace (rm_tree p w) = trace w @ [RmTree p]"
  "set (fs_paths (rm_tree p w)) \<subseteq> set (fs_paths w)"
  by (auto simp: rm_tree_def)

lemma rm_tree_gone [simp]: "\<not> path_exists (rm_tree p w) p"
  by (simp add: rm_tree_def path_exists_def below_def)

lemma path_exists_mono:
  "set (fs_paths w') \<subseteq> set (fs_paths w) \<Longrightarrow> path_exists w' p \<Longrightarrow> path_exists w p"
  by (auto simp: path_exists_def)

lemma remove_folder_fields [simp]:
  "outputs (remove_folder env r w) = outputs w"
  "faults (remove_folder env r w) = faults w"
  "set (fs_paths (remove_folder env r w)) \<subseteq> set (fs_paths w)"
  by (simp_all add: remove_folder_def Let_def split: option.splits)

lemma remove_folder_gone:
  "output_path r = Some p \<Longrightarrow> p \<noteq> [] \<Longrightarrow>
     \<not> path_exists (remove_folder env r w) (path_join (get_output_dir_target env) p)"
  by (simp add: remove_folder_def Let_def)

text \<open>The \<open>rm_tree\<close> calls of one pass, and of the loop: each on a directory that
  existed and that a row refers to.\<close>

lemma remove_folder_trace:
  "\<exists>ds. trace (remove_folder env r w) = trace w @ map RmTree ds
        \<and> (\<forall>d\<in>set ds. path_exists w d
               \<and> (\<exists>p. output_path r = Some p \<and> p \<noteq> []
                      \<and> d = path_join (get_output_dir_target env) p))"
proof (cases "\<exists>p. output_path r = Some p \<and> p \<noteq> []
                \<and> path_exists w (path_join (get_output_dir_target env) p)")
  case True
  then obtain p where p: "output_path r = Some p" "p \<noteq> []"
    "path_exists w (path_join (get_output_dir_target env) p)" by blast
  then have "trace (remove_folder env r w)
      = trace w @ map RmTree [path_join (get_output_dir_target env) p]"
    by (simp add: remove_folder_def Let_def)
  with p show ?thesis by (intro exI [of _ "[path_join (get_output_dir_target env) p]"]) simp
next
  case False
  then have "remove_folder env r w = w"
    by (auto simp: remove_folder_def Let_def split: option.splits)
  then show ?thesis by (intro exI [of _ "[]"]) simp
qed

lemma remove_folders_fields [simp]:
  "outputs (remove_folders env rs w) = outputs w"
  "faults (remove_folders env rs w) = faults w"
  by (induction rs arbitrary: w) simp_all

lemma remove_folders_shrinks:
  "set (fs_paths (remove_folders env rs w)) \<subseteq> set (fs_paths w)"
proof (induction rs arbitrary: w)
  case Nil
  then show ?case by simp
next
  case (Cons r rs)
  have "set (fs_paths (remove_folders env rs (remove_folder env r w)))
      \<subseteq> set (fs_paths (remove_folder env r w))"
    by (rule Cons.IH)
  also have "\<dots> \<subseteq> set (fs_paths w)" by simp
  finally show ?case by simp
qed

lemma remove_folders_gone:
  assumes "r \<in> set rs" and "output_path r = Some p" and "p \<noteq> []"
  shows "\<not> path_exists (remove_folders env rs w) (path_join (get_output_dir_target env) p)"
  using assms(1)
proof (induction rs arbitrary: w)
  case Nil
  then show ?case by simp
next
  case (Cons a rs)
  show ?case
  proof (cases "r \<in> set rs")
    case True
    then show ?thesis using Cons.IH by simp
  next
    case False
    with Cons.prems have "a = r" by simp
    then have "\<not> path_exists (remove_folder env a w) (path_join (get_output_dir_target env) p)"
      using remove_folder_gone [OF assms(2,3)] by simp
    then show ?thesis
      using path_exists_mono [OF remove_folders_shrinks [of env rs "remove_folder env a w"]]
      by auto
  qed
qed

lemma remove_folders_trace:
  "\<exists>ds. trace (remove_folders env rs w) = trace w @ map RmTree ds
        \<and> (\<forall>d\<in>set ds. path_exists w d
               \<and> (\<exists>r\<in>set rs. \<exists>p. output_path r = Some p \<and> p \<noteq> []
                      \<and> d = path_join (get_output_dir_target env) p))"
proof (induction rs arbitrary: w)
  case Nil
  show ?case by (intro exI [of _ "[]"]) simp
next
  case (Cons a rs)
  let ?w = "remove_folder env a w"
  from remove_folder_trace [of env a w] obtain ds1 where
    ds1: "trace ?w = trace w @ map RmTree ds1"
      "\<forall>d\<in>set ds1. path_exists w d
               \<and> (\<exists>p. output_path a = Some p \<and> p \<noteq> []
                      \<and> d = path_join (get_output_dir_target env) p)"
    by blast
  from Cons.IH [of ?w] obtain ds2 where
    ds2: "trace (remove_folders env rs ?w) = trace ?w @ map RmTree ds2"
      "\<forall>d\<in>set ds2. path_exists ?w d
               \<and> (\<exists>r\<in>set rs. \<exists>p. output_path r = Some p \<and> p \<noteq> []
                      \<and> d = path_join (get_output_dir_target env) p)"
    by blast
  have ex2: "\<forall>d\<in>set ds2. path_exists w d"
    using ds2(2) path_exists_mono [of ?w w] by simp
  have "trace (remove_folders env (a # rs) w) = trace w @ map RmTree (ds1 @ ds2)"
    by (simp add: ds1(1) ds2(1))
  moreover have "\<forall>d\<in>set (ds1 @ ds2). path_exists w d
               \<and> (\<exists>r\<in>set (a # rs). \<exists>p. output_path r = Some p \<and> p \<noteq> []
                      \<and> d = path_join (get_output_dir_target env) p)"
    using ds1(2) ds2(2) ex2 by auto
  ultimately show ?case by blast
qed

lemma poutput_gen_query_empty:
  "poutput_gen_query env Map.empty tid for_delete =
     Inr \<lparr>q_target = tid, q_criteria = [], q_ordered = \<not> for_delete,
          q_offset = None, q_limit = None\<rparr>"
  by (simp add: poutput_gen_query_def str_filter_def int_filter_def page_bound_def Let_def)

lemma commit_ok:
  "next_commit_ok w \<Longrightarrow>
     \<exists>w'. commit pending w = (None, w') \<and> outputs w' = pending
        \<and> fs_paths w' = fs_paths w \<and> trace w' = trace w @ [DbCommit]"
  by (auto simp: commit_def next_commit_ok_def split: list.splits)

text \<open>
  Claim C3. When the commit succeeds, \<open>delete_all_poutput\<close> with the empty filter
  returns; the rows of the target are gone, none remains for it, and the rows of the other
  targets stay; for every row of the target that had an \<open>output_path\<close>, the directory
  it refers to does not exist afterwards; and the effects come in this order: the
  \<open>rm_tree\<close> calls, each on a directory that existed and that a row of the target refers
  to, then the deletion of the rows, then the commit.
\<close>

theorem delete_all_poutput_empty_filter:
  assumes "next_commit_ok w"
  shows "\<exists>w' dirs. delete_all_poutput env Map.empty tid w = (None, w')
     \<and> outputs w' = filter (\<lambda>r. target_id r \<noteq> tid) (outputs w)
     \<and> length (filter (\<lambda>r. target_id r = tid) (outputs w')) = 0
     \<and> (\<forall>r\<in>set (outputs w). target_id r = tid \<longrightarrow>
           (\<forall>p. output_path r = Some p \<and> p \<noteq> [] \<longrightarrow>
              \<not> path_exists w' (path_join (get_output_dir_target env) p)))
     \<and> trace w' = trace w @ map RmTree dirs @ [DbDelete, DbCommit]
     \<and> (\<forall>d\<in>set dirs. path_exists w d
           \<and> (\<exists>r\<in>set (outputs w). target_id r = tid
                 \<and> (\<exists>p. output_path r = Some p \<and> p \<noteq> []
                        \<and> d = path_join (get_output_dir_target env) p)))"
proof -
  let ?q = "\<lparr>q_target = tid, q_criteria = [], q_ordered = False,
              q_offset = None, q_limit = None\<rparr>"
  let ?rs = "filter (\<lambda>r. target_id r = tid) (outputs w)"
  let ?w1 = "remove_folders env ?rs w"
  let ?w2 = "?w1\<lparr>trace := trace ?w1 @ [DbDelete]\<rparr>"
  let ?rest = "filter (\<lambda>r. target_id r \<noteq> tid) (outputs w)"
  have qa: "query_all ?q (outputs w) = ?rs"
    by (simp add: query_all_def selected_no_criteria apply_limit_def apply_offset_def)
  have qd: "query_delete ?q (outputs w) = Inr ?rest"
    by (simp add: query_delete_def selected_no_criteria)
  have del: "delete_all_poutput env Map.empty tid w = commit ?rest ?w2"
    by (simp add: delete_all_poutput_def poutput_gen_query_empty qa qd Let_def)
  have "next_commit_ok ?w2"
    using assms by (simp add: next_commit_ok_def)
  from commit_ok [OF this, of ?rest] obtain w' where
    w': "commit ?rest ?w2 = (None, w')" "outputs w' = ?rest"
      "fs_paths w' = fs_paths ?w1" "trace w' = trace ?w1 @ [DbDelete, DbCommit]"
    by auto
  from remove_folders_trace [of env ?rs w] obtain dirs where
    dirs: "trace ?w1 = trace w @ map RmTree dirs"
      "\<forall>d\<in>set dirs. path_exists w d
          \<and> (\<exists>r\<in>set ?rs. \<exists>p. output_path r = Some p \<and> p \<noteq> []
                 \<and> d = path_join (get_output_dir_target env) p)"
    by blast
  have gone: "\<forall>r\<in>set (outputs w). target_id r = tid \<longrightarrow>
           (\<forall>p. output_path r = Some p \<and> p \<noteq> [] \<longrightarrow>
              \<not> path_exists w' (path_join (get_output_dir_target env) p))"
  proof (intro ballI impI allI)
    fix r p
    assume "r \<in> set (outputs w)" "target_id r = tid" "output_path r = Some p \<and> p \<noteq> []"
    then have "r \<in> set ?rs" "output_path r = Some p" "p \<noteq> []" by simp_all
    from remove_folders_gone [OF this, of env w]
    show "\<not> path_exists w' (path_join (get_output_dir_target env) p)"
      by (simp add: path_exists_def w'(3))
  qed
  have none: "length (filter (\<lambda>r. target_id r = tid) (outputs w')) = 0"
    by (simp add: w'(2))
  have tr: "trace w' = trace w @ map RmTree dirs @ [DbDelete, DbCommit]"
    by (simp add: w'(4) dirs(1))
  have refs: "\<forall>d\<in>set dirs. path_exists w d
           \<and> (\<exists>r\<in>set (outputs w). target_id r = tid
                 \<and> (\<exists>p. output_path r = Some p \<and> p \<noteq> []
                        \<and> d = path_join (get_output_dir_target env) p))"
    using dirs(2) by simp blast
  from del w'(1,2) none gone tr refs show ?thesis
    by (intro exI [of _ w'] exI [of _ dirs]) simp
qed

lemmas delete_defs = delete_all_poutput_def poutput_gen_query_def str_filter_def int_filter_def
  page_bound_def query_all_def query_delete_def selected_def apply_offset_def apply_limit_def
  remove_folder_def rm_tree_def path_exists_def path_join_def below_def commit_def

theorem delete_all_poutput_empty_filter_witness:
  "next_commit_ok ex_world
   \<and> delete_all_poutput ex_env Map.empty 1 ex_world
       = (None, ex_world\<lparr>outputs := [row_b, row_c], fs_paths := [''/out''],
                         trace := [RmTree ''/out/web/active/OWTF-001'', DbDelete, DbCommit]\<rparr>)"
  using delete_all_poutput_empty_filter [of ex_world ex_env 1]
  by (simp add: next_commit_ok_def delete_defs Let_def ex_defs)

subsection \<open>The severity histogram\<close>

lemma count_ranks_Cons:
  "count_ranks ts (r # rows) bs =
     (if target_id r \<in> set ts then
        (case eff_rank r of
           None \<Rightarrow> count_ranks ts rows bs
         | Some k \<Rightarrow>
             (case bump bs k of Inl e \<Rightarrow> Inl e | Inr bs' \<Rightarrow> count_ranks ts rows bs'))
      else count_ranks ts rows bs)"
  by (simp add: eff_rank_def)

declare count_ranks.simps(2) [simp del]

lemma bump_in_range:
  assumes "length bs = 6" and "- 6 \<le> k" and "k \<le> 5"
  shows "bump bs k = Inr (bs[nat (k mod 6) := (bs ! nat (k mod 6))\<lparr>sf_value := sf_value (bs ! nat (k mod 6)) + 1\<rparr>])"
proof (cases "0 \<le> k")
  case True
  with assms have "k mod 6 = k" by simp
  with True assms show ?thesis by (simp add: bump_def py_index_def)
next
  case False
  with assms have "k mod 6 = 6 + k"
    by (smt (verit) mod_add_self1 mod_pos_pos_trivial)
  with False assms show ?thesis by (simp add: bump_def py_index_def)
qed

lemma bump_out_of_range:
  assumes "length bs = 6" and "6 \<le> k \<or> k \<le> - 7"
  shows "bump bs k = Inl IndexError"
  using assms by (auto simp: bump_def py_index_def)

lemma bump_length: "bump bs k = Inr bs' \<Longrightarrow> length bs' = length bs"
  by (auto simp: bump_def split: option.splits)

lemma bump_error: "bump bs k = Inl e \<Longrightarrow> e = IndexError"
  by (auto simp: bump_def split: option.splits)

lemma wrap_count_Cons:
  "wrap_count ts (r # rows) i =
     (if target_id r \<in> set ts \<and> (eff_rank r = Some i \<or> eff_rank r = Some (i - 6))
      then 1 + wrap_count ts rows i else wrap_count ts rows i)"
  by (simp add: wrap_count_def)

lemma mod6_index:
  assumes "- 6 \<le> k" and "k \<le> 5" and "i < 6"
  shows "(nat (k mod 6) = i) = (k = int i \<or> k = int i - 6)"
proof (cases "0 \<le> k")
  case True
  with assms have "k mod 6 = k" by simp
  with True assms show ?thesis by auto
next
  case False
  with assms have "k mod 6 = 6 + k"
    by (smt (verit) mod_add_self1 mod_pos_pos_trivial)
  with False assms show ?thesis by auto
qed

lemma count_ranks_exact:
  assumes "length bs = 6"
    and "\<forall>r\<in>set rows. target_id r \<in> set ts \<longrightarrow> (\<forall>k. eff_rank r = Some k \<longrightarrow> - 6 \<le> k \<and> k \<le> 5)"
  shows "\<exists>bs'. count_ranks ts rows bs = Inr bs' \<and> length bs' = 6
           \<and> (\<forall>i<6. bs' ! i = (bs ! i)\<lparr>sf_value := sf_value (bs ! i) + wrap_count ts rows (int i)\<rparr>)"
  using assms
proof (induction rows arbitrary: bs)
  case Nil
  then show ?case by (simp add: wrap_count_def)
next
  case (Cons r rows)
  from Cons.prems(2) have rest:
    "\<forall>r\<in>set rows. target_id r \<in> set ts \<longrightarrow> (\<forall>k. eff_rank r = Some k \<longrightarrow> - 6 \<le> k \<and> k \<le> 5)"
    by simp
  show ?case
  proof (cases "target_id r \<in> set ts \<and> eff_rank r \<noteq> None")
    case False
    then have "count_ranks ts (r # rows) bs = count_ranks ts rows bs"
      and "\<And>i. wrap_count ts (r # rows) i = wrap_count ts rows i"
      by (auto simp: count_ranks_Cons wrap_count_Cons)
    with Cons.IH [OF Cons.prems(1) rest] show ?thesis by simp
  next
    case True
    then obtain k where k: "target_id r \<in> set ts" "eff_rank r = Some k" by auto
    with Cons.prems(2) have range: "- 6 \<le> k" "k \<le> 5" by auto
    let ?j = "nat (k mod 6)"
    let ?bs1 = "bs[?j := (bs ! ?j)\<lparr>sf_value := sf_value (bs ! ?j) + 1\<rparr>]"
    have j: "?j < 6" using range by simp
    have step: "count_ranks ts (r # rows) bs = count_ranks ts rows ?bs1"
      by (simp add: count_ranks_Cons k bump_in_range [OF Cons.prems(1) range])
    have len1: "length ?bs1 = 6" using Cons.prems(1) by simp
    from Cons.IH [OF len1 rest] obtain bs' where
      bs': "count_ranks ts rows ?bs1 = Inr bs'" "length bs' = 6"
        "\<forall>i<6. bs' ! i = (?bs1 ! i)\<lparr>sf_value := sf_value (?bs1 ! i) + wrap_count ts rows (int i)\<rparr>"
      by blast
    have "bs' ! i = (bs ! i)\<lparr>sf_value := sf_value (bs ! i) + wrap_count ts (r # rows) (int i)\<rparr>"
      if "i < 6" for i
    proof (cases "?j = i")
      case True
      then have "k = int i \<or> k = int i - 6"
        using mod6_index [OF range that] by simp
      then have "wrap_count ts (r # rows) (int i) = 1 + wrap_count ts rows (int i)"
        using k by (auto simp: wrap_count_Cons)
      moreover have "?bs1 ! i = (bs ! i)\<lparr>sf_value := sf_value (bs ! i) + 1\<rparr>"
        using True that Cons.prems(1) by auto
      ultimately show ?thesis using bs'(3) that by simp
    next
      case False
      then have "\<not> (k = int i \<or> k = int i - 6)"
        using mod6_index [OF range that] by simp
      then have "wrap_count ts (r # rows) (int i) = wrap_count ts rows (int i)"
        using k by (auto simp: wrap_count_Cons)
      moreover have "?bs1 ! i = bs ! i"
        using False by simp
      ultimately show ?thesis using bs'(3) that by simp
    qed
    with step bs'(1,2) show ?thesis by simp
  qed
qed

lemma count_ranks_fails:
  assumes "length bs = 6"
    and "\<exists>r\<in>set rows. target_id r \<in> set ts \<and> (\<exists>k. eff_rank r = Some k \<and> (6 \<le> k \<or> k \<le> - 7))"
  shows "count_ranks ts rows bs = Inl IndexError"
  using assms
proof (induction rows arbitrary: bs)
  case Nil
  then show ?case by simp
next
  case (Cons r rows)
  show ?case
  proof (cases "target_id r \<in> set ts \<and> eff_rank r \<noteq> None")
    case False
    with Cons.prems(2) have
      "\<exists>r\<in>set rows. target_id r \<in> set ts \<and> (\<exists>k. eff_rank r = Some k \<and> (6 \<le> k \<or> k \<le> - 7))"
      by auto
    from Cons.IH [OF Cons.prems(1) this] False show ?thesis
      by (auto simp: count_ranks_Cons)
  next
    case True
    then obtain k where k: "target_id r \<in> set ts" "eff_rank r = Some k" by auto
    show ?thesis
    proof (cases "bump bs k")
      case (Inl e)
      with bump_error [OF Inl] k show ?thesis by (simp add: count_ranks_Cons)
    next
      case (Inr bs1)
      then have "\<not> (6 \<le> k \<or> k \<le> - 7)"
        using bump_out_of_range [OF Cons.prems(1), of k] by auto
      with Cons.prems(2) k have
        "\<exists>r\<in>set rows. target_id r \<in> set ts \<and> (\<exists>k. eff_rank r = Some k \<and> (6 \<le> k \<or> k \<le> - 7))"
        by auto
      moreover have "length bs1 = 6"
        using bump_length [OF Inr] Cons.prems(1) by simp
      ultimately have "count_ranks ts rows bs1 = Inl IndexError"
        by (rule Cons.IH [rotated])
      with Inr k show ?thesis by (simp add: count_ranks_Cons)
    qed
  qed
qed

lemma six_elements:
  assumes "length xs = 6"
  shows "xs = [xs ! 0, xs ! 1, xs ! 2, xs ! 3, xs ! 4, xs ! 5]"
proof -
  have "[0..<6] = [0, 1, 2, 3, 4, 5::nat]" by (simp add: upt_rec)
  then have "map ((!) xs) [0..<length xs] = [xs ! 0, xs ! 1, xs ! 2, xs ! 3, xs ! 4, xs ! 5]"
    using assms by simp
  then show ?thesis by (simp only: map_nth)
qed

lemma get_severity_freq_wrap:
  assumes "\<forall>r\<in>set (outputs w). target_id r \<in> set (session_targets w sid) \<longrightarrow>
             (\<forall>k. eff_rank r = Some k \<longrightarrow> - 6 \<le> k \<and> k \<le> 5)"
  shows "get_severity_freq w sid = Inr (histogram (wrap_count (session_targets w sid) (outputs w)))"
proof -
  let ?ts = "session_targets w sid"
  have len: "length severity_frequency = 6" by (simp add: severity_frequency_def)
  from count_ranks_exact [OF len assms] obtain bs' where
    bs': "count_ranks ?ts (outputs w) severity_frequency = Inr bs'" "length bs' = 6"
      "\<forall>i<6. bs' ! i = (severity_frequency ! i)
          \<lparr>sf_value := sf_value (severity_frequency ! i) + wrap_count ?ts (outputs w) (int i)\<rparr>"
    by blast
  have "bs' = [bs' ! 0, bs' ! 1, bs' ! 2, bs' ! 3, bs' ! 4, bs' ! 5]"
    by (rule six_elements [OF bs'(2)])
  also have "\<dots> = rev (data (histogram (wrap_count ?ts (outputs w))))"
    using bs'(3) by (simp add: severity_frequency_def histogram_def)
  finally have "rev bs' = data (histogram (wrap_count ?ts (outputs w)))" by simp
  then show ?thesis
    by (simp add: get_severity_freq_def bs'(1) histogram_def)
qed

lemma eff_rank_in_range:
  assumes "- 1 \<le> user_rank r \<and> user_rank r \<le> 5 \<and> - 1 \<le> owtf_rank r \<and> owtf_rank r \<le> 5"
    and "eff_rank r = Some k"
  shows "0 \<le> k \<and> k \<le> 5"
  using assms by (auto simp: eff_rank_def split: if_splits)

lemma session_targets_in_session:
  "tid \<in> set (session_targets w session_id) \<longleftrightarrow> in_session w session_id tid"
  by (auto simp: session_targets_def in_session_def)

lemma wrap_count_session:
  assumes "\<forall>r\<in>set (outputs w). - 1 \<le> user_rank r \<and> user_rank r \<le> 5
                                  \<and> - 1 \<le> owtf_rank r \<and> owtf_rank r \<le> 5"
    and "i \<le> 5"
  shows "wrap_count (session_targets w session_id) (outputs w) i = session_rank_count w session_id i"
proof -
  let ?ts = "session_targets w session_id"
  have "(target_id r \<in> set ?ts \<and> (eff_rank r = Some i \<or> eff_rank r = Some (i - 6)))
      = (in_session w session_id (target_id r) \<and> eff_rank r = Some i)"
    if "r \<in> set (outputs w)" for r
    using eff_rank_in_range [of r "i - 6"] assms that
    by (auto simp: session_targets_in_session)
  then have "filter (\<lambda>r. target_id r \<in> set ?ts
                          \<and> (eff_rank r = Some i \<or> eff_rank r = Some (i - 6))) (outputs w)
      = filter (\<lambda>r. in_session w session_id (target_id r) \<and> eff_rank r = Some i) (outputs w)"
    by (intro filter_cong) auto
  then show ?thesis by (simp add: wrap_count_def session_rank_count_def)
qed

text \<open>
  Claim C4. On records whose ranks lie in the range of the data model, -1 to 5,
  \<open>get_severity_freq\<close> returns the six buckets, Critical first, inside the \<open>data\<close>
  envelope; the bucket of index \<open>i\<close> holds the number of records whose target belongs to
  the session (a target of that id has the session among its sessions) and whose counting
  rank is \<open>i\<close>: \<open>user_rank\<close> when it is not -1, else \<open>owtf_rank\<close> when it is not -1;
  a record with both ranks -1 is in no bucket.
\<close>

theorem get_severity_freq_histogram:
  assumes "\<forall>r\<in>set (outputs w). - 1 \<le> user_rank r \<and> user_rank r \<le> 5
                                  \<and> - 1 \<le> owtf_rank r \<and> owtf_rank r \<le> 5"
  shows "get_severity_freq w session_id = Inr (histogram (session_rank_count w session_id))"
proof -
  have "\<forall>r\<in>set (outputs w). target_id r \<in> set (session_targets w session_id) \<longrightarrow>
             (\<forall>k. eff_rank r = Some k \<longrightarrow> - 6 \<le> k \<and> k \<le> 5)"
  proof (intro ballI impI allI)
    fix r k
    assume "r \<in> set (outputs w)" and "eff_rank r = Some k"
    with assms eff_rank_in_range [of r k] show "- 6 \<le> k \<and> k \<le> 5" by auto
  qed
  from get_severity_freq_wrap [OF this]
  show ?thesis
    by (simp add: histogram_def wrap_count_session [OF assms])
qed

theorem get_severity_freq_histogram_witness:
  "list_all (\<lambda>r. - 1 \<le> user_rank r \<and> user_rank r \<le> 5
                   \<and> - 1 \<le> owtf_rank r \<and> owtf_rank r \<le> 5) (outputs ex_world)
   \<and> get_severity_freq ex_world 7 =
     Inr \<lparr>data =
        [\<lparr>sf_id = 5, sf_label = ''Critical'', sf_value = 0\<rparr>,
         \<lparr>sf_id = 4, sf_label = ''High'', sf_value = 1\<rparr>,
         \<lparr>sf_id = 3, sf_label = ''Medium'', sf_value = 0\<rparr>,
         \<lparr>sf_id = 2, sf_label = ''Low'', sf_value = 1\<rparr>,
         \<lparr>sf_id = 1, sf_label = ''Info'', sf_value = 0\<rparr>,
         \<lparr>sf_id = 0, sf_label = ''Passing'', sf_value = 0\<rparr>]\<rparr>
   \<and> get_severity_freq ex_world 8 =
     Inr \<lparr>data =
        [\<lparr>sf_id = 5, sf_label = ''Critical'', sf_value = 1\<rparr>,
         \<lparr>sf_id = 4, sf_label = ''High'', sf_value = 0\<rparr>,
         \<lparr>sf_id = 3, sf_label = ''Medium'', sf_value = 0\<rparr>,
         \<lparr>sf_id = 2, sf_label = ''Low'', sf_value = 1\<rparr>,
         \<lparr>sf_id = 1, sf_label = ''Info'', sf_value = 0\<rparr>,
         \<lparr>sf_id = 0, sf_label = ''Passing'', sf_value = 0\<rparr>]\<rparr>
   \<and> get_severity_freq ex_world 9 =
     Inr \<lparr>data =
        [\<lparr>sf_id = 5, sf_label = ''Critical'', sf_value = 0\<rparr>,
         \<lparr>sf_id = 4, sf_label = ''High'', sf_value = 0\<rparr>,
         \<lparr>sf_id = 3, sf_label = ''Medium'', sf_value = 0\<rparr>,
         \<lparr>sf_id = 2, sf_label = ''Low'', sf_value = 0\<rparr>,
         \<lparr>sf_id = 1, sf_label = ''Info'', sf_value = 0\<rparr>,
         \<lparr>sf_id = 0, sf_label = ''Passing'', sf_value = 0\<rparr>]\<rparr>"
proof -
  have h: "\<forall>r\<in>set (outputs ex_world). - 1 \<le> user_rank r \<and> user_rank r \<le> 5
                                  \<and> - 1 \<le> owtf_rank r \<and> owtf_rank r \<le> 5"
    by (simp add: ex_defs)
  have s: "in_session ex_world 7 1" "in_session ex_world 7 2" "\<not> in_session ex_world 7 3"
    "\<not> in_session ex_world 8 1" "in_session ex_world 8 2" "in_session ex_world 8 3"
    "\<not> in_session ex_world 9 1" "\<not> in_session ex_world 9 2" "\<not> in_session ex_world 9 3"
    by (simp_all add: in_session_def ex_world_def)
  have e: "eff_rank row_a = Some 4" "eff_rank row_b = Some 2" "eff_rank row_c = Some 5"
    "target_id row_a = 1" "target_id row_b = 2" "target_id row_c = 3"
    "outputs ex_world = [row_a, row_b, row_c]"
    by (simp_all add: eff_rank_def ex_defs)
  have c: "session_rank_count ex_world 7 5 = 0" "session_rank_count ex_world 7 4 = 1"
    "session_rank_count ex_world 7 3 = 0" "session_rank_count ex_world 7 2 = 1"
    "session_rank_count ex_world 7 1 = 0" "session_rank_count ex_world 7 0 = 0"
    "session_rank_count ex_world 8 5 = 1" "session_rank_count ex_world 8 4 = 0"
    "session_rank_count ex_world 8 3 = 0" "session_rank_count ex_world 8 2 = 1"
    "session_rank_count ex_world 8 1 = 0" "session_rank_count ex_world 8 0 = 0"
    "session_rank_count ex_world 9 5 = 0" "session_rank_count ex_world 9 4 = 0"
    "session_rank_count ex_world 9 3 = 0" "session_rank_count ex_world 9 2 = 0"
    "session_rank_count ex_world 9 1 = 0" "session_rank_count ex_world 9 0 = 0"
    by (simp_all add: session_rank_count_def e s)
  from get_severity_freq_histogram [OF h, of 7] get_severity_freq_histogram [OF h, of 8]
    get_severity_freq_histogram [OF h, of 9] h
  show ?thesis
    unfolding histogram_def c by (simp add: list_all_iff)
qed

text \<open>
  Claim C10, amended. On records whose ranks all lie between -1 and 5,
  \<open>get_severity_freq\<close> does not fail and returns six buckets. A record of a target of
  the session whose counting rank is 6 or more, or -7 or less, makes it fail with
  \<open>IndexError\<close>. When the counting ranks of the session's records lie between -6 and 5,
  it returns, and a rank \<open>k\<close> from -6 to -2 is counted in the bucket of index
  \<open>6 + k\<close> (rank -2 in the High bucket).
\<close>

theorem severity_index_range:
  "((\<forall>r\<in>set (outputs w). - 1 \<le> user_rank r \<and> user_rank r \<le> 5
                              \<and> - 1 \<le> owtf_rank r \<and> owtf_rank r \<le> 5)
      \<longrightarrow> (\<exists>res. get_severity_freq w sid = Inr res \<and> length (data res) = 6))
   \<and> ((\<exists>r\<in>set (outputs w). target_id r \<in> set (session_targets w sid)
           \<and> (\<exists>k. eff_rank r = Some k \<and> (6 \<le> k \<or> k \<le> - 7)))
      \<longrightarrow> get_severity_freq w sid = Inl IndexError)
   \<and> ((\<forall>r\<in>set (outputs w). target_id r \<in> set (session_targets w sid) \<longrightarrow>
           (\<forall>k. eff_rank r = Some k \<longrightarrow> - 6 \<le> k \<and> k \<le> 5))
      \<longrightarrow> get_severity_freq w sid =
            Inr (histogram (wrap_count (session_targets w sid) (outputs w))))"
proof (intro conjI impI)
  assume a: "\<forall>r\<in>set (outputs w). - 1 \<le> user_rank r \<and> user_rank r \<le> 5
                              \<and> - 1 \<le> owtf_rank r \<and> owtf_rank r \<le> 5"
  have "\<forall>r\<in>set (outputs w). target_id r \<in> set (session_targets w sid) \<longrightarrow>
             (\<forall>k. eff_rank r = Some k \<longrightarrow> - 6 \<le> k \<and> k \<le> 5)"
  proof (intro ballI impI allI)
    fix r k
    assume "r \<in> set (outputs w)" and "eff_rank r = Some k"
    with a eff_rank_in_range [of r k] show "- 6 \<le> k \<and> k \<le> 5" by auto
  qed
  from get_severity_freq_wrap [OF this]
  show "\<exists>res. get_severity_freq w sid = Inr res \<and> length (data res) = 6"
    by (simp add: histogram_def)
next
  assume "\<exists>r\<in>set (outputs w). target_id r \<in> set (session_targets w sid)
           \<and> (\<exists>k. eff_rank r = Some k \<and> (6 \<le> k \<or> k \<le> - 7))"
  moreover have "length severity_frequency = 6" by (simp add: severity_frequency_def)
  ultimately have "count_ranks (session_targets w sid) (outputs w) severity_frequency = Inl IndexError"
    by (rule count_ranks_fails [rotated])
  then show "get_severity_freq w sid = Inl IndexError"
    by (simp add: get_severity_freq_def)
next
  assume "\<forall>r\<in>set (outputs w). target_id r \<in> set (session_targets w sid) \<longrightarrow>
           (\<forall>k. eff_rank r = Some k \<longrightarrow> - 6 \<le> k \<and> k \<le> 5)"
  then show "get_severity_freq w sid =
            Inr (histogram (wrap_count (session_targets w sid) (outputs w)))"
    by (rule get_severity_freq_wrap)
qed

theorem severity_index_range_witness:
  "(\<exists>res. get_severity_freq ex_world 7 = Inr res \<and> length (data res) = 6)
   \<and> eff_rank (row_a\<lparr>user_rank := 6\<rparr>) = Some 6
   \<and> get_severity_freq (ranked_world 6) 7 = Inl IndexError
   \<and> eff_rank (row_a\<lparr>user_rank := - 2\<rparr>) = Some (- 2)
   \<and> get_severity_freq (ranked_world (- 2)) 7 =
       Inr \<lparr>data =
          [\<lparr>sf_id = 5, sf_label = ''Critical'', sf_value = 0\<rparr>,
           \<lparr>sf_id = 4, sf_label = ''High'', sf_value = 1\<rparr>,
           \<lparr>sf_id = 3, sf_label = ''Medium'', sf_value = 0\<rparr>,
           \<lparr>sf_id = 2, sf_label = ''Low'', sf_value = 0\<rparr>,
           \<lparr>sf_id = 1, sf_label = ''Info'', sf_value = 0\<rparr>,
           \<lparr>sf_id = 0, sf_label = ''Passing'', sf_value = 0\<rparr>]\<rparr>"
proof -
  have a: "\<forall>r\<in>set (outputs ex_world). - 1 \<le> user_rank r \<and> user_rank r \<le> 5
                              \<and> - 1 \<le> owtf_rank r \<and> owtf_rank r \<le> 5"
    by (simp add: ex_defs)
  have t: "session_targets (ranked_world k) 7 = [1, 2]" for k
    by (simp add: session_targets_def ranked_world_def ex_defs)
  have e6: "eff_rank (row_a\<lparr>user_rank := 6\<rparr>) = Some 6"
    and e2: "eff_rank (row_a\<lparr>user_rank := - 2\<rparr>) = Some (- 2)"
    by (simp_all add: eff_rank_def row_a_def)
  have b: "\<exists>r\<in>set (outputs (ranked_world 6)). target_id r \<in> set (session_targets (ranked_world 6) 7)
           \<and> (\<exists>k. eff_rank r = Some k \<and> (6 \<le> k \<or> k \<le> - 7))"
    unfolding t by (simp add: ranked_world_def e6) (simp add: row_a_def)
  have c: "\<forall>r\<in>set (outputs (ranked_world (- 2))).
             target_id r \<in> set (session_targets (ranked_world (- 2)) 7) \<longrightarrow>
             (\<forall>k. eff_rank r = Some k \<longrightarrow> - 6 \<le> k \<and> k \<le> 5)"
    by (simp add: ranked_world_def e2)
  have w: "wrap_count [1, 2] (outputs (ranked_world (- 2))) 5 = 0"
    "wrap_count [1, 2] (outputs (ranked_world (- 2))) 4 = 1"
    "wrap_count [1, 2] (outputs (ranked_world (- 2))) 3 = 0"
    "wrap_count [1, 2] (outputs (ranked_world (- 2))) 2 = 0"
    "wrap_count [1, 2] (outputs (ranked_world (- 2))) 1 = 0"
    "wrap_count [1, 2] (outputs (ranked_world (- 2))) 0 = 0"
    by (simp_all add: wrap_count_def ranked_world_def e2) (simp_all add: row_a_def)
  from severity_index_range [of ex_world 7] a
  have r1: "\<exists>res. get_severity_freq ex_world 7 = Inr res \<and> length (data res) = 6"
    by blast
  from severity_index_range [of "ranked_world 6" 7] b
  have r2: "get_severity_freq (ranked_world 6) 7 = Inl IndexError"
    by blast
  from severity_index_range [of "ranked_world (- 2)" 7] c
  have "get_severity_freq (ranked_world (- 2)) 7 =
      Inr (histogram (wrap_count (session_targets (ranked_world (- 2)) 7) (outputs (ranked_world (- 2)))))"
    by blast
  then have r3: "get_severity_freq (ranked_world (- 2)) 7 =
       Inr \<lparr>data =
          [\<lparr>sf_id = 5, sf_label = ''Critical'', sf_value = 0\<rparr>,
           \<lparr>sf_id = 4, sf_label = ''High'', sf_value = 1\<rparr>,
           \<lparr>sf_id = 3, sf_label = ''Medium'', sf_value = 0\<rparr>,
           \<lparr>sf_id = 2, sf_label = ''Low'', sf_value = 0\<rparr>,
           \<lparr>sf_id = 1, sf_label = ''Info'', sf_value = 0\<rparr>,
           \<lparr>sf_id = 0, sf_label = ''Passing'', sf_value = 0\<rparr>]\<rparr>"
    unfolding t histogram_def w by simp
  from r1 e6 r2 e2 r3 show ?thesis by blast
qed

lemmas count_defs = get_severity_freq_def count_ranks.simps bump_def py_index_def
  severity_frequency_def session_targets_def ranked_world_def ex_defs

text \<open>
  Claim C10 as stated fails for a rank of -7: it is a rank of -2 or less, and the index
  is out of range for the six buckets, so the operation fails instead of incrementing a
  bucket.
\<close>

theorem rank_below_minus_six_counterexample:
  "user_rank (hd (outputs (ranked_world (- 7)))) = - 7
   \<and> get_severity_freq (ranked_world (- 7)) 7 = Inl IndexError"
  by (simp add: count_defs)

subsection \<open>Updating\<close>

text \<open>A rank value that is true for Python and that \<open>int()\<close> reads as \<open>n\<close>.\<close>

lemma patch_rank_sets:
  assumes "v = RInt n \<and> n \<noteq> 0 \<or> (\<exists>s. v = RStr s \<and> s \<noteq> [] \<and> int_of_str env s = Some n)
             \<or> (\<exists>x xs. v = RLst (x # xs) \<and> int_of_str env x = Some n)"
  shows "patch_rank env \<lparr>p_user_rank = Some v, p_user_notes = notes\<rparr> obj
           = Some (obj\<lparr>user_rank := n, owtf_rank := - 1\<rparr>)"
  using assms by (auto simp: patch_rank_def)

lemma patch_notes_keeps:
  "user_rank (patch_notes patch obj) = user_rank obj"
  "owtf_rank (patch_notes patch obj) = owtf_rank obj"
  "nkey (patch_notes patch obj) = nkey obj"
  by (simp_all add: patch_notes_def nkey_def split: option.splits fval.splits list.splits)

lemma plugin_dict_selects:
  assumes "g \<noteq> []" and "t \<noteq> []" and "c \<noteq> []"
  shows "\<exists>q. poutput_gen_query env [''plugin_group'' \<mapsto> Str g, ''plugin_type'' \<mapsto> Str t,
                                   ''plugin_code'' \<mapsto> Str c] tid False = Inr q
           \<and> q_ordered q \<and> q_offset q = None \<and> q_limit q = None
           \<and> (\<forall>r. selected q r = (nkey r = (tid, g, t, c)))"
proof -
  let ?fd = "[''plugin_group'' \<mapsto> Str g, ''plugin_type'' \<mapsto> Str t, ''plugin_code'' \<mapsto> Str c]"
  have ok: "\<not> bad_rank env (?fd ''user_rank'')" "\<not> bad_rank env (?fd ''owtf_rank'')"
    "page_bound env ?fd ''offset'' = Inr None" "page_bound env ?fd ''limit'' = Inr None"
    by (simp_all add: bad_rank_def page_bound_def)
  have m: "spec_matches env (given \<circ> ?fd) r
      = (plugin_type r = t \<and> plugin_group r = g \<and> plugin_code r = c)" for r
    using assms by (simp add: spec_matches_def spec_str_pred_def spec_int_pred_def given_def)
  from poutput_gen_query_ok [OF ok, of tid False] show ?thesis
    by (auto simp: m nkey_def)
qed

lemma replace_row_key:
  assumes "nkey new = nkey old"
  shows "map nkey (replace_row old new rows) = map nkey rows"
    and "r' \<in> set (replace_row old new rows) \<Longrightarrow> nkey r' = nkey old \<Longrightarrow> r' = new"
  using assms by (auto simp: replace_row_def)

text \<open>
  What \<open>update_poutput\<close> does for a rank that Python takes for true: a non-zero
  integer, a non-empty string that \<open>int()\<close> reads, or a list whose first element \<open>int()\<close>
  reads. On a table with distinct keys that has a row for the key (group, type and code
  not empty), and with the commit succeeding, the row gets \<open>user_rank = n\<close> and
  \<open>owtf_rank = -1\<close>, whatever \<open>owtf_rank\<close> was.
\<close>

theorem update_poutput_sets_rank:
  assumes "g \<noteq> []" and "t \<noteq> []" and "c \<noteq> []"
    and "distinct (map nkey (outputs w))"
    and "r \<in> set (outputs w)" and "nkey r = (tid, g, t, c)"
    and "v = RInt n \<and> n \<noteq> 0 \<or> (\<exists>s. v = RStr s \<and> s \<noteq> [] \<and> int_of_str env s = Some n)
           \<or> (\<exists>x xs. v = RLst (x # xs) \<and> int_of_str env x = Some n)"
    and "next_commit_ok w"
  shows "\<exists>w'. update_poutput env g t c \<lparr>p_user_rank = Some v, p_user_notes = notes\<rparr> tid w = (None, w')
           \<and> (\<exists>r'. filter (\<lambda>r. nkey r = (tid, g, t, c)) (outputs w') = [r']
                  \<and> user_rank r' = n \<and> owtf_rank r' = - 1)"
proof -
  let ?patch = "\<lparr>p_user_rank = Some v, p_user_notes = notes\<rparr>"
  let ?k = "(tid, g, t, c)"
  from plugin_dict_selects [OF assms(1-3), of env tid] obtain q where
    q: "poutput_gen_query env [''plugin_group'' \<mapsto> Str g, ''plugin_type'' \<mapsto> Str t,
                           ''plugin_code'' \<mapsto> Str c] tid False = Inr q"
      "q_ordered q" "q_offset q = None" "q_limit q = None"
      "\<And>r. selected q r = (nkey r = ?k)"
    by blast
  have "?k \<in> nkey ` set (outputs w)"
    using assms(5,6) by (metis image_eqI)
  from distinct_filter_key [OF assms(4) this] obtain x where
    x: "filter (\<lambda>r. nkey r = ?k) (outputs w) = [x]" by blast
  have "r \<in> set (filter (\<lambda>r. nkey r = ?k) (outputs w))"
    using assms(5,6) by simp
  then have xr: "x = r" unfolding x by simp
  have sel: "filter (selected q) (outputs w) = [r]"
    using x xr q(5) by (simp cong: filter_cong)
  have first: "query_first q (outputs w) = Some r"
    by (simp add: query_first_def query_all_def Let_def sel q(2-4) apply_limit_def apply_offset_def)
  let ?new = "patch_notes ?patch (r\<lparr>user_rank := n, owtf_rank := - 1\<rparr>)"
  let ?rows = "replace_row r ?new (outputs w)"
  have knew: "nkey ?new = nkey r"
    by (simp add: patch_notes_keeps) (simp add: nkey_def)
  have upd: "update_poutput env g t c ?patch tid w = commit ?rows (w\<lparr>trace := trace w @ [DbMerge]\<rparr>)"
    by (simp add: update_poutput_def Let_def q(1) first patch_rank_sets [OF assms(7)])
  have "next_commit_ok (w\<lparr>trace := trace w @ [DbMerge]\<rparr>)"
    using assms(8) by (simp add: next_commit_ok_def)
  from commit_ok [OF this, of ?rows] obtain w' where
    w': "commit ?rows (w\<lparr>trace := trace w @ [DbMerge]\<rparr>) = (None, w')" "outputs w' = ?rows"
    by auto
  have d': "distinct (map nkey ?rows)"
    using assms(4) by (simp add: replace_row_key(1) [OF knew])
  have "?k \<in> nkey ` set ?rows"
    using \<open>?k \<in> nkey ` set (outputs w)\<close> replace_row_key(1) [OF knew, of "outputs w"]
    by (metis list.set_map)
  from distinct_filter_key [OF d' this] obtain r' where
    r': "filter (\<lambda>r. nkey r = ?k) ?rows = [r']" by blast
  then have "r' \<in> set (filter (\<lambda>r. nkey r = ?k) ?rows)" by simp
  then have "r' \<in> set ?rows" "nkey r' = nkey r" using assms(6) by simp_all
  from replace_row_key(2) [OF knew this] have "r' = ?new" .
  then have "user_rank r' = n \<and> owtf_rank r' = - 1"
    by (simp add: patch_notes_keeps)
  with upd w' r' show ?thesis by auto
qed

lemmas update_defs = update_poutput_def poutput_gen_query_def str_filter_def int_filter_def
  page_bound_def query_first_def query_all_def selected_def apply_offset_def apply_limit_def
  add_criterion_def patch_rank_def patch_notes_def replace_row_def nkey_def commit_def

text \<open>
  Claim C5: the code departs from it for \<open>N = 0\<close> given as an integer.
  \<open>patch_data.get("user_rank", None)\<close> is tested for truth, the integer 0 is false, and
  the block that sets \<open>user_rank\<close> and forces \<open>owtf_rank\<close> to -1 is skipped: the
  update returns without error and the record keeps \<open>user_rank = -1\<close> and
  \<open>owtf_rank = 2\<close>.
\<close>

theorem update_poutput_rank_zero_ignored:
  "update_poutput env ''web'' ''passive'' ''OWTF-002''
      \<lparr>p_user_rank = Some (RInt 0), p_user_notes = None\<rparr> 2 ex_world
     = (None, ex_world\<lparr>trace := [DbMerge, DbCommit]\<rparr>)
   \<and> outputs ex_world = [row_a, row_b, row_c]
   \<and> nkey row_b = (2, ''web'', ''passive'', ''OWTF-002'')
   \<and> user_rank row_b = - 1 \<and> owtf_rank row_b = 2"
  by (simp add: update_defs Let_def ex_defs)

theorem update_poutput_sets_rank_witness:
  "distinct (map nkey (outputs ex_world)) \<and> row_b \<in> set (outputs ex_world)
   \<and> nkey row_b = (2, ''web'', ''passive'', ''OWTF-002'') \<and> owtf_rank row_b = 2
   \<and> int_of_str ex_env ''0'' = Some 0 \<and> next_commit_ok ex_world
   \<and> (\<exists>w'. update_poutput ex_env ''web'' ''passive'' ''OWTF-002''
               \<lparr>p_user_rank = Some (RStr ''0''), p_user_notes = None\<rparr> 2 ex_world = (None, w')
           \<and> (\<exists>r'. filter (\<lambda>r. nkey r = (2, ''web'', ''passive'', ''OWTF-002'')) (outputs w') = [r']
                  \<and> user_rank r' = 0 \<and> owtf_rank r' = - 1))"
proof -
  have d: "distinct (map nkey (outputs ex_world))"
    by (simp add: ex_defs nkey_def)
  have m: "row_b \<in> set (outputs ex_world)"
    by (simp add: ex_world_def)
  have k: "nkey row_b = (2, ''web'', ''passive'', ''OWTF-002'')" and o: "owtf_rank row_b = 2"
    by (simp_all add: nkey_def row_b_def)
  have p: "int_of_str ex_env ''0'' = Some 0"
    by (simp add: ex_env_def decimal_int_defs)
  have c: "next_commit_ok ex_world"
    by (simp add: next_commit_ok_def ex_world_def)
  have v: "RStr ''0'' = RInt 0 \<and> (0::int) \<noteq> 0
           \<or> (\<exists>s. RStr ''0'' = RStr s \<and> s \<noteq> [] \<and> int_of_str ex_env s = Some 0)
           \<or> (\<exists>x xs. RStr ''0'' = RLst (x # xs) \<and> int_of_str ex_env x = Some 0)"
    using p by simp
  from update_poutput_sets_rank [OF _ _ _ d m k v c, of None] d m k o p c
  show ?thesis by simp
qed

end
